theory Spec2Isabelle
  imports Complex_Main "HOL-Library.Word"
begin

section \<open>PLONK verifier of the bn254 backend (internal/backend/bn254/plonk/verify.go)\<close>

text \<open>
  The Go function \<^verbatim>\<open>Verify(proof *Proof, vk *VerifyingKey, publicWitness) error\<close> is
  embedded statement by statement as a transformer of an explicit state.  The state holds
  the two structures reached through the pointer arguments, the public witness and every
  local variable of the function, so that each Go statement that writes its receiver
  (\<^verbatim>\<open>x.Add(&x, &y)\<close>) is one record update of the field \<open>x\<close>.

  Types of the libraries the function imports:
  \<^item> \<^verbatim>\<open>fr.Element\<close> is an element of a field \<open>'f\<close>; \<^verbatim>\<open>Add\<close>, \<^verbatim>\<open>Sub\<close>, \<^verbatim>\<open>Mul\<close>,
    \<^verbatim>\<open>Div\<close>, \<^verbatim>\<open>Equal\<close> are the field operations.  \<^verbatim>\<open>Div\<close> multiplies by the inverse and the
    library's inverse of zero is zero: it returns no error and does not panic.  HOL's
    division in a field agrees with it (\<open>x / 0 = 0\<close>).
  \<^item> \<^verbatim>\<open>kzg.Digest\<close> is a point of a commutative group \<open>'g\<close>, a value type: an assignment
    copies it; \<^verbatim>\<open>Add\<close> and \<^verbatim>\<open>Sub\<close> are the group operations.
  \<^item> Everything else the function calls in the libraries (serialisation of points, the
    Fiat-Shamir transcript, conversion to big integers, scalar multiplication, the two
    KZG checks) is a parameter, collected in the record \<open>env\<close>.  Those functions read
    their operands and write only their receiver.
\<close>

type_synonym byte = "8 word"

subsection \<open>Data\<close>

text \<open>\<^verbatim>\<open>kzg.BatchOpeningProof\<close> and \<^verbatim>\<open>kzg.OpeningProof\<close>: the function reads the claimed
  values only; the rest of each structure is passed on to the KZG checks unread.\<close>

record ('f, 'x) BatchOpeningProof =
  ClaimedValues :: "'f list"
  BatchRest :: 'x

record ('f, 'x) OpeningProof =
  ClaimedValue :: 'f
  OpeningRest :: 'x

record ('f, 'g, 'x) Proof =
  LRO :: "'g list"
  Z :: 'g
  H :: "'g list"
  BatchedProof :: "('f, 'x) BatchOpeningProof"
  ZShiftedOpening :: "('f, 'x) OpeningProof"

record ('f, 'g, 'srs) VerifyingKey =
  Size :: "64 word"
  SizeInv :: 'f
  Generator :: 'f
  Shifter :: "'f list"
  S :: "'g list"
  Ql :: 'g
  Qr :: 'g
  Qm :: 'g
  Qo :: 'g
  Qk :: 'g
  KZGSRS :: 'srs

text \<open>The value of Go's \<^verbatim>\<open>error\<close> result: the sentinel of this package, or an error value
  handed up from a library call.\<close>

datatype 'e error = errWrongClaimedQuotient | LibraryError 'e

text \<open>How a call ends: it returns (\<open>None\<close> is Go's \<^verbatim>\<open>nil\<close>), or an index expression is
  out of range and the run-time panics.\<close>

datatype 'e outcome = Return "'e error option" | Panic

record ('f, 'g, 't, 'e, 'srs, 'x) env =
  Marshal :: "'g \<Rightarrow> byte list"
  NewTranscript :: "string list \<Rightarrow> 't"
  Bind :: "'t \<Rightarrow> string \<Rightarrow> byte list \<Rightarrow> 'e + 't"
  ComputeChallenge :: "'t \<Rightarrow> string \<Rightarrow> 'e + (byte list \<times> 't)"
  ExpNegative :: "'f \<Rightarrow> int \<Rightarrow> 'f"
  ToBigIntRegular :: "'f \<Rightarrow> int"
  ScalarMultiplication :: "'g \<Rightarrow> int \<Rightarrow> 'g"
  BatchVerifySinglePoint :: "'g list \<Rightarrow> ('f, 'x) BatchOpeningProof \<Rightarrow> 'srs \<Rightarrow> 'e option"
  kzgVerify :: "'g \<Rightarrow> ('f, 'x) OpeningProof \<Rightarrow> 'srs \<Rightarrow> 'e option"

text \<open>The state of one call.  \<open>v_proof\<close>, \<open>vk\<close> and \<open>publicWitness\<close> are the caller's
  data; the other fields are the local variables of \<^verbatim>\<open>Verify\<close>, under their Go names
  (\<open>u_s1\<close>, \<open>u_s2\<close>, \<open>u_o\<close>, \<open>u_s1b\<close>, \<open>u_s2b\<close> for \<^verbatim>\<open>_s1\<close>, \<^verbatim>\<open>_s2\<close>, \<^verbatim>\<open>_o\<close>, \<^verbatim>\<open>_s1b\<close>,
  \<^verbatim>\<open>_s2b\<close>; \<open>v_pi\<close>, \<open>v_one\<close>, \<open>v_l\<close>, \<open>v_r\<close>, \<open>v_o\<close>, \<open>v_t\<close> for \<^verbatim>\<open>pi\<close>, \<^verbatim>\<open>one\<close>, \<^verbatim>\<open>l\<close>,
  \<^verbatim>\<open>r\<close>, \<^verbatim>\<open>o\<close>, \<^verbatim>\<open>t\<close>).  \<open>v_proof\<close> is the structure behind the argument \<^verbatim>\<open>proof\<close>.\<close>

record ('f, 'g, 't, 'srs, 'x) state =
  v_proof :: "('f, 'g, 'x) Proof"
  vk :: "('f, 'g, 'srs) VerifyingKey"
  publicWitness :: "'f list"
  fs :: 't
  gamma :: 'f
  alpha :: 'f
  zeta :: 'f
  zetaPowerM :: 'f
  zzeta :: 'f
  v_one :: 'f
  bExpo :: int
  v_pi :: 'f
  den :: 'f
  acc :: 'f
  lagrange :: 'f
  lagrangeOne :: 'f
  xiLi :: 'f
  u_s1 :: 'f
  u_s2 :: 'f
  u_o :: 'f
  alphaSquareLagrange :: 'f
  zu :: 'f
  claimedQuotient :: 'f
  linearizedPolynomialZeta :: 'f
  v_l :: 'f
  v_r :: 'f
  v_o :: 'f
  s1 :: 'f
  s2 :: 'f
  zetaPowerMMinusOne :: 'f
  mPlusTwo :: int
  zetaMPlusTwo :: 'f
  zetaMPlusTwoBigInt :: int
  foldedH :: 'g
  lb :: int
  rb :: int
  ob :: int
  rlb :: int
  rl :: 'f
  linearizedPolynomialDigest :: 'g
  tmp :: 'g
  v_t :: 'f
  u_s1b :: int
  u_s2b :: int
  s3Commit :: 'g
  secondPart :: 'g
  thirdPart :: 'g
  alphaSquareLagrangeB :: int


subsection \<open>Library operations on field elements\<close>

text \<open>\<^verbatim>\<open>z.SetBytes(b)\<close> reads \<open>b\<close> as a big-endian unsigned integer and takes its class in
  the field: in a field of characteristic \<open>q\<close> the map \<open>of_nat\<close> is the reduction modulo
  \<open>q\<close> (lemma \<open>SetBytes_reduces\<close> below).\<close>

definition bytesToNat :: "byte list \<Rightarrow> nat" where
  "bytesToNat bs = foldl (\<lambda>a b. a * 256 + unat b) 0 bs"

definition SetBytes :: "byte list \<Rightarrow> 'f::field" where
  "SetBytes bs = of_nat (bytesToNat bs)"

text \<open>\<^verbatim>\<open>z.Exp(x, k)\<close> for a \<^verbatim>\<open>big.Int\<close> exponent.  The source tree does not say what the
  library computes for a negative exponent: that case is the parameter \<open>ExpNegative\<close>.\<close>

definition Exp :: "('f::field, 'g, 't, 'e, 'srs, 'x) env \<Rightarrow> 'f \<Rightarrow> int \<Rightarrow> 'f" where
  "Exp E x k = (if 0 \<le> k then x ^ nat k else ExpNegative E x k)"

subsection \<open>Statements\<close>

text \<open>A statement either falls through to the next one (\<open>None\<close>) or ends the call.\<close>

type_synonym ('f, 'g, 't, 'e, 'srs, 'x) step =
  "('f, 'g, 't, 'srs, 'x) state \<Rightarrow> 'e outcome option \<times> ('f, 'g, 't, 'srs, 'x) state"

fun run :: "('s \<Rightarrow> 'r option \<times> 's) list \<Rightarrow> 's \<Rightarrow> 'r option \<times> 's" where
  "run [] s = (None, s)"
| "run (f # rest) s =
     (case f s of (Some res, s') \<Rightarrow> (Some res, s') | (None, s') \<Rightarrow> run rest s')"

text \<open>An assignment, or a library call that writes its receiver.\<close>

definition upd :: "('s \<Rightarrow> 's) \<Rightarrow> 's \<Rightarrow> 'r option \<times> 's" where
  "upd f s = (None, f s)"

text \<open>Go's index expression \<^verbatim>\<open>xs[i]\<close>: out of range, the run-time panics.\<close>

definition index :: "'a list \<Rightarrow> nat \<Rightarrow> 'a option" where
  "index xs i = (if i < length xs then Some (xs ! i) else None)"

text \<open>A statement with one index expression among its operands.\<close>

definition load :: "('s \<Rightarrow> 'a option) \<Rightarrow> ('a \<Rightarrow> 's \<Rightarrow> 's) \<Rightarrow> 's \<Rightarrow> 'e outcome option \<times> 's" where
  "load rd wr s = (case rd s of None \<Rightarrow> (Some Panic, s) | Some v \<Rightarrow> (None, wr v s))"

text \<open>\<^verbatim>\<open>err = fs.Bind(label, point.Marshal()); if err != nil { return err }\<close>\<close>

definition bindStep ::
  "('f, 'g, 't, 'e, 'srs, 'x) env \<Rightarrow> string \<Rightarrow> (('f, 'g, 't, 'srs, 'x) state \<Rightarrow> 'g option)
     \<Rightarrow> ('f, 'g, 't, 'e, 'srs, 'x) step" where
  "bindStep E label point s =
     (case point s of
        None \<Rightarrow> (Some Panic, s)
      | Some p \<Rightarrow>
          (case Bind E (fs s) label (Marshal E p) of
             Inl err \<Rightarrow> (Some (Return (Some (LibraryError err))), s)
           | Inr t' \<Rightarrow> (None, s\<lparr>fs := t'\<rparr>)))"

text \<open>\<^verbatim>\<open>b, err := fs.ComputeChallenge(label); if err != nil { return err }; x.SetBytes(b)\<close>\<close>

definition challengeStep ::
  "('f::field, 'g, 't, 'e, 'srs, 'x) env \<Rightarrow> string
     \<Rightarrow> ('f \<Rightarrow> ('f, 'g, 't, 'srs, 'x) state \<Rightarrow> ('f, 'g, 't, 'srs, 'x) state)
     \<Rightarrow> ('f, 'g, 't, 'e, 'srs, 'x) step" where
  "challengeStep E label wr s =
     (case ComputeChallenge E (fs s) label of
        Inl err \<Rightarrow> (Some (Return (Some (LibraryError err))), s)
      | Inr (b, t') \<Rightarrow> (None, wr (SetBytes b) (s\<lparr>fs := t'\<rparr>)))"

subsection \<open>Lines 36 to 86: the three challenges\<close>

definition challengeSteps ::
  "('f::field, 'g, 't, 'e, 'srs, 'x) env \<Rightarrow> ('f, 'g, 't, 'e, 'srs, 'x) step list" where
  "challengeSteps E =
     [bindStep E ''gamma'' (\<lambda>s. index (LRO (v_proof s)) 0),
      bindStep E ''gamma'' (\<lambda>s. index (LRO (v_proof s)) 1),
      bindStep E ''gamma'' (\<lambda>s. index (LRO (v_proof s)) 2),
      challengeStep E ''gamma'' (\<lambda>c s. s\<lparr>gamma := c\<rparr>),
      bindStep E ''alpha'' (\<lambda>s. Some (Z (v_proof s))),
      challengeStep E ''alpha'' (\<lambda>c s. s\<lparr>alpha := c\<rparr>),
      bindStep E ''zeta'' (\<lambda>s. index (H (v_proof s)) 0),
      bindStep E ''zeta'' (\<lambda>s. index (H (v_proof s)) 1),
      bindStep E ''zeta'' (\<lambda>s. index (H (v_proof s)) 2),
      challengeStep E ''zeta'' (\<lambda>c s. s\<lparr>zeta := c\<rparr>)]"

subsection \<open>Lines 88 to 94: the vanishing polynomial at zeta\<close>

definition vanishingSteps ::
  "('f::field, 'g, 't, 'e, 'srs, 'x) env \<Rightarrow> ('f, 'g, 't, 'e, 'srs, 'x) step list" where
  "vanishingSteps E =
     [upd (\<lambda>s. s\<lparr>v_one := 1\<rparr>),
      upd (\<lambda>s. s\<lparr>bExpo := uint (Size (vk s))\<rparr>),
      upd (\<lambda>s. s\<lparr>zetaPowerM := Exp E (zeta s) (bExpo s)\<rparr>),
      upd (\<lambda>s. s\<lparr>zzeta := zetaPowerM s - v_one s\<rparr>)]"

subsection \<open>Lines 96 to 115: the public inputs at zeta\<close>

text \<open>The body of the loop, lines 106 to 114, for the index \<open>i\<close>.  The loop condition
  \<^verbatim>\<open>i < len(publicWitness)\<close> keeps \<^verbatim>\<open>publicWitness[i]\<close> in range.\<close>

definition loopBody ::
  "nat \<Rightarrow> ('f::field, 'g, 't, 'srs, 'x) state \<Rightarrow> ('f, 'g, 't, 'srs, 'x) state" where
  "loopBody i s0 =
     (let s = s0\<lparr>xiLi := lagrange s0 * publicWitness s0 ! i\<rparr>;
          s = s\<lparr>v_pi := v_pi s + xiLi s\<rparr>;
          s = s\<lparr>lagrange := lagrange s * Generator (vk s)\<rparr>;
          s = s\<lparr>lagrange := lagrange s * den s\<rparr>;
          s = s\<lparr>acc := acc s * Generator (vk s)\<rparr>;
          s = s\<lparr>den := zeta s - acc s\<rparr>;
          s = s\<lparr>lagrange := lagrange s / den s\<rparr>
      in s)"

lemma publicWitness_loopBody: "publicWitness (loopBody i s) = publicWitness s"
  by (simp add: loopBody_def Let_def)

function forLoop ::
  "nat \<Rightarrow> ('f::field, 'g, 't, 'srs, 'x) state \<Rightarrow> ('f, 'g, 't, 'srs, 'x) state" where
  "forLoop i s = (if i < length (publicWitness s) then forLoop (Suc i) (loopBody i s) else s)"
  by pat_completeness auto
termination
  by (relation "measure (\<lambda>(i, s). length (publicWitness s) - i)")
     (auto simp: publicWitness_loopBody)

declare forLoop.simps [simp del]

definition publicInputSteps :: "('f::field, 'g, 't, 'e, 'srs, 'x) step list" where
  "publicInputSteps =
     [upd (\<lambda>s. s\<lparr>lagrange := zzeta s\<rparr>),
      upd (\<lambda>s. s\<lparr>acc := 1\<rparr>),
      upd (\<lambda>s. s\<lparr>den := zeta s - acc s\<rparr>),
      upd (\<lambda>s. s\<lparr>lagrange := lagrange s / den s\<rparr>),
      upd (\<lambda>s. s\<lparr>lagrange := lagrange s * SizeInv (vk s)\<rparr>),
      upd (\<lambda>s. s\<lparr>lagrangeOne := lagrange s\<rparr>),
      upd (forLoop 0)]"

subsection \<open>Lines 117 to 153: the claimed quotient\<close>

definition claimedValue :: "('f, 'g, 't, 'srs, 'x) state \<Rightarrow> nat \<Rightarrow> 'f option" where
  "claimedValue s i = index (ClaimedValues (BatchedProof (v_proof s))) i"

text \<open>\<^verbatim>\<open>if !claimedQuotient.Equal(&linearizedPolynomialZeta) { return errWrongClaimedQuotient }\<close>\<close>

definition checkQuotient :: "('f, 'g, 't, 'e, 'srs, 'x) step" where
  "checkQuotient s =
     (if claimedQuotient s \<noteq> linearizedPolynomialZeta s
      then (Some (Return (Some errWrongClaimedQuotient)), s)
      else (None, s))"

definition quotientSteps :: "('f::field, 'g, 't, 'e, 'srs, 'x) step list" where
  "quotientSteps =
     [upd (\<lambda>s. s\<lparr>zu := ClaimedValue (ZShiftedOpening (v_proof s))\<rparr>),
      load (\<lambda>s. claimedValue s 0) (\<lambda>v s. s\<lparr>claimedQuotient := v\<rparr>),
      load (\<lambda>s. claimedValue s 1) (\<lambda>v s. s\<lparr>linearizedPolynomialZeta := v\<rparr>),
      load (\<lambda>s. claimedValue s 2) (\<lambda>v s. s\<lparr>v_l := v\<rparr>),
      load (\<lambda>s. claimedValue s 3) (\<lambda>v s. s\<lparr>v_r := v\<rparr>),
      load (\<lambda>s. claimedValue s 4) (\<lambda>v s. s\<lparr>v_o := v\<rparr>),
      load (\<lambda>s. claimedValue s 5) (\<lambda>v s. s\<lparr>s1 := v\<rparr>),
      load (\<lambda>s. claimedValue s 6) (\<lambda>v s. s\<lparr>s2 := v\<rparr>),
      upd (\<lambda>s. s\<lparr>u_s1 := v_l s + s1 s\<rparr>),
      upd (\<lambda>s. s\<lparr>u_s1 := u_s1 s + gamma s\<rparr>),
      upd (\<lambda>s. s\<lparr>u_s2 := v_r s + s2 s\<rparr>),
      upd (\<lambda>s. s\<lparr>u_s2 := u_s2 s + gamma s\<rparr>),
      upd (\<lambda>s. s\<lparr>u_o := v_o s + gamma s\<rparr>),
      upd (\<lambda>s. s\<lparr>u_s1 := u_s1 s * u_s2 s\<rparr>),
      upd (\<lambda>s. s\<lparr>u_s1 := u_s1 s * u_o s\<rparr>),
      upd (\<lambda>s. s\<lparr>u_s1 := u_s1 s * alpha s\<rparr>),
      upd (\<lambda>s. s\<lparr>u_s1 := u_s1 s * zu s\<rparr>),
      upd (\<lambda>s. s\<lparr>alphaSquareLagrange := lagrangeOne s * alpha s\<rparr>),
      upd (\<lambda>s. s\<lparr>alphaSquareLagrange := alphaSquareLagrange s * alpha s\<rparr>),
      upd (\<lambda>s. s\<lparr>linearizedPolynomialZeta := linearizedPolynomialZeta s + v_pi s\<rparr>),
      upd (\<lambda>s. s\<lparr>linearizedPolynomialZeta := linearizedPolynomialZeta s + u_s1 s\<rparr>),
      upd (\<lambda>s. s\<lparr>linearizedPolynomialZeta :=
                    linearizedPolynomialZeta s - alphaSquareLagrange s\<rparr>),
      upd (\<lambda>s. s\<lparr>zetaPowerMMinusOne := zetaPowerM s - v_one s\<rparr>),
      upd (\<lambda>s. s\<lparr>linearizedPolynomialZeta :=
                    linearizedPolynomialZeta s / zetaPowerMMinusOne s\<rparr>),
      checkQuotient]"

subsection \<open>Lines 155 to 165: the folded commitment to H\<close>

text \<open>\<^verbatim>\<open>int64(vk.Size) + 2\<close> is computed in 64 bits and read as a signed number.\<close>

definition foldSteps ::
  "('f::field, 'g::ab_group_add, 't, 'e, 'srs, 'x) env \<Rightarrow> ('f, 'g, 't, 'e, 'srs, 'x) step list" where
  "foldSteps E =
     [upd (\<lambda>s. s\<lparr>mPlusTwo := sint (Size (vk s) + 2)\<rparr>),
      upd (\<lambda>s. s\<lparr>zetaMPlusTwo := Exp E (zeta s) (mPlusTwo s)\<rparr>),
      upd (\<lambda>s. s\<lparr>zetaMPlusTwoBigInt := ToBigIntRegular E (zetaMPlusTwo s)\<rparr>),
      load (\<lambda>s. index (H (v_proof s)) 2) (\<lambda>v s. s\<lparr>foldedH := v\<rparr>),
      upd (\<lambda>s. s\<lparr>foldedH := ScalarMultiplication E (foldedH s) (zetaMPlusTwoBigInt s)\<rparr>),
      load (\<lambda>s. index (H (v_proof s)) 1) (\<lambda>v s. s\<lparr>foldedH := foldedH s + v\<rparr>),
      upd (\<lambda>s. s\<lparr>foldedH := ScalarMultiplication E (foldedH s) (zetaMPlusTwoBigInt s)\<rparr>),
      load (\<lambda>s. index (H (v_proof s)) 0) (\<lambda>v s. s\<lparr>foldedH := foldedH s + v\<rparr>)]"

subsection \<open>Lines 167 to 220: the commitment to the linearized polynomial\<close>

definition digestSteps ::
  "('f::field, 'g::ab_group_add, 't, 'e, 'srs, 'x) env \<Rightarrow> ('f, 'g, 't, 'e, 'srs, 'x) step list" where
  "digestSteps E =
     [upd (\<lambda>s. s\<lparr>lb := ToBigIntRegular E (v_l s)\<rparr>),
      upd (\<lambda>s. s\<lparr>rb := ToBigIntRegular E (v_r s)\<rparr>),
      upd (\<lambda>s. s\<lparr>ob := ToBigIntRegular E (v_o s)\<rparr>),
      upd (\<lambda>s. s\<lparr>rl := v_l s * v_r s\<rparr>),
      upd (\<lambda>s. s\<lparr>rlb := ToBigIntRegular E (rl s)\<rparr>),
      upd (\<lambda>s. s\<lparr>linearizedPolynomialDigest := Ql (vk s)\<rparr>),
      upd (\<lambda>s. s\<lparr>linearizedPolynomialDigest :=
                    ScalarMultiplication E (linearizedPolynomialDigest s) (lb s)\<rparr>),
      upd (\<lambda>s. s\<lparr>tmp := Qr (vk s)\<rparr>),
      upd (\<lambda>s. s\<lparr>tmp := ScalarMultiplication E (tmp s) (rb s)\<rparr>),
      upd (\<lambda>s. s\<lparr>linearizedPolynomialDigest := linearizedPolynomialDigest s + tmp s\<rparr>),
      upd (\<lambda>s. s\<lparr>tmp := Qm (vk s)\<rparr>),
      upd (\<lambda>s. s\<lparr>tmp := ScalarMultiplication E (tmp s) (rlb s)\<rparr>),
      upd (\<lambda>s. s\<lparr>linearizedPolynomialDigest := linearizedPolynomialDigest s + tmp s\<rparr>),
      upd (\<lambda>s. s\<lparr>tmp := Qo (vk s)\<rparr>),
      upd (\<lambda>s. s\<lparr>tmp := ScalarMultiplication E (tmp s) (ob s)\<rparr>),
      upd (\<lambda>s. s\<lparr>linearizedPolynomialDigest := linearizedPolynomialDigest s + tmp s\<rparr>),
      upd (\<lambda>s. s\<lparr>tmp := Qk (vk s)\<rparr>),
      upd (\<lambda>s. s\<lparr>linearizedPolynomialDigest := linearizedPolynomialDigest s + tmp s\<rparr>),
      upd (\<lambda>s. s\<lparr>u_s1 := v_l s + s1 s\<rparr>),
      upd (\<lambda>s. s\<lparr>u_s1 := u_s1 s + gamma s\<rparr>),
      upd (\<lambda>s. s\<lparr>v_t := v_r s + s2 s\<rparr>),
      upd (\<lambda>s. s\<lparr>v_t := v_t s + gamma s\<rparr>),
      upd (\<lambda>s. s\<lparr>u_s1 := u_s1 s * v_t s\<rparr>),
      upd (\<lambda>s. s\<lparr>u_s1 := u_s1 s * zu s\<rparr>),
      upd (\<lambda>s. s\<lparr>u_s1 := u_s1 s * alpha s\<rparr>),
      upd (\<lambda>s. s\<lparr>u_s2 := v_l s + zeta s\<rparr>),
      upd (\<lambda>s. s\<lparr>u_s2 := u_s2 s + gamma s\<rparr>),
      load (\<lambda>s. index (Shifter (vk s)) 0) (\<lambda>v s. s\<lparr>v_t := zeta s * v\<rparr>),
      upd (\<lambda>s. s\<lparr>v_t := v_t s + v_r s\<rparr>),
      upd (\<lambda>s. s\<lparr>v_t := v_t s + gamma s\<rparr>),
      upd (\<lambda>s. s\<lparr>u_s2 := v_t s * u_s2 s\<rparr>),
      load (\<lambda>s. index (Shifter (vk s)) 1) (\<lambda>v s. s\<lparr>v_t := zeta s * v\<rparr>),
      upd (\<lambda>s. s\<lparr>v_t := v_t s + v_o s\<rparr>),
      upd (\<lambda>s. s\<lparr>v_t := v_t s + gamma s\<rparr>),
      upd (\<lambda>s. s\<lparr>u_s2 := v_t s * u_s2 s\<rparr>),
      upd (\<lambda>s. s\<lparr>u_s2 := u_s2 s * alpha s\<rparr>),
      upd (\<lambda>s. s\<lparr>u_s1b := ToBigIntRegular E (u_s1 s)\<rparr>),
      upd (\<lambda>s. s\<lparr>u_s2b := ToBigIntRegular E (u_s2 s)\<rparr>),
      load (\<lambda>s. index (S (vk s)) 2) (\<lambda>v s. s\<lparr>s3Commit := v\<rparr>),
      upd (\<lambda>s. s\<lparr>s3Commit := ScalarMultiplication E (s3Commit s) (u_s1b s)\<rparr>),
      upd (\<lambda>s. s\<lparr>secondPart := Z (v_proof s)\<rparr>),
      upd (\<lambda>s. s\<lparr>secondPart := ScalarMultiplication E (secondPart s) (u_s2b s)\<rparr>),
      upd (\<lambda>s. s\<lparr>secondPart := s3Commit s - secondPart s\<rparr>),
      upd (\<lambda>s. s\<lparr>alphaSquareLagrangeB := ToBigIntRegular E (alphaSquareLagrange s)\<rparr>),
      upd (\<lambda>s. s\<lparr>thirdPart := Z (v_proof s)\<rparr>),
      upd (\<lambda>s. s\<lparr>thirdPart := ScalarMultiplication E (thirdPart s) (alphaSquareLagrangeB s)\<rparr>),
      upd (\<lambda>s. s\<lparr>linearizedPolynomialDigest := linearizedPolynomialDigest s + secondPart s\<rparr>),
      upd (\<lambda>s. s\<lparr>linearizedPolynomialDigest := linearizedPolynomialDigest s + thirdPart s\<rparr>)]"

subsection \<open>Lines 222 to 240: the opening proofs\<close>

text \<open>The slice literal of the seven digests; its index expressions are evaluated before
  the call.\<close>

definition digests :: "('f, 'g, 't, 'srs, 'x) state \<Rightarrow> 'g list option" where
  "digests s =
     (case (index (LRO (v_proof s)) 0, index (LRO (v_proof s)) 1, index (LRO (v_proof s)) 2,
            index (S (vk s)) 0, index (S (vk s)) 1) of
        (Some lro0, Some lro1, Some lro2, Some sigma0, Some sigma1) \<Rightarrow>
          Some [foldedH s, linearizedPolynomialDigest s, lro0, lro1, lro2, sigma0, sigma1]
      | _ \<Rightarrow> None)"

definition batchStep ::
  "('f, 'g, 't, 'e, 'srs, 'x) env \<Rightarrow> ('f, 'g, 't, 'e, 'srs, 'x) step" where
  "batchStep E s =
     (case digests s of
        None \<Rightarrow> (Some Panic, s)
      | Some ds \<Rightarrow>
          (case BatchVerifySinglePoint E ds (BatchedProof (v_proof s)) (KZGSRS (vk s)) of
             Some err \<Rightarrow> (Some (Return (Some (LibraryError err))), s)
           | None \<Rightarrow> (None, s)))"

text \<open>The last statement: \<^verbatim>\<open>return kzg.Verify(&proof.Z, &proof.ZShiftedOpening, vk.KZGSRS)\<close>.\<close>

definition finalStep ::
  "('f, 'g, 't, 'e, 'srs, 'x) env \<Rightarrow> ('f, 'g, 't, 'srs, 'x) state \<Rightarrow> 'e outcome" where
  "finalStep E s =
     Return (map_option LibraryError
       (kzgVerify E (Z (v_proof s)) (ZShiftedOpening (v_proof s)) (KZGSRS (vk s))))"

subsection \<open>The function\<close>

text \<open>The state at the entry: the arguments, the transcript of line 36, and Go's zero
  value in every other local variable.\<close>

definition entry ::
  "('f::field, 'g::ab_group_add, 't, 'e, 'srs, 'x) env \<Rightarrow> ('f, 'g, 'x) Proof
     \<Rightarrow> ('f, 'g, 'srs) VerifyingKey \<Rightarrow> 'f list \<Rightarrow> ('f, 'g, 't, 'srs, 'x) state" where
  "entry E p k w =
     \<lparr>v_proof = p, vk = k, publicWitness = w,
      fs = NewTranscript E [''gamma'', ''alpha'', ''zeta''],
      gamma = 0, alpha = 0, zeta = 0, zetaPowerM = 0, zzeta = 0, v_one = 0, bExpo = 0,
      v_pi = 0, den = 0, acc = 0, lagrange = 0, lagrangeOne = 0, xiLi = 0,
      u_s1 = 0, u_s2 = 0, u_o = 0, alphaSquareLagrange = 0, zu = 0, claimedQuotient = 0,
      linearizedPolynomialZeta = 0, v_l = 0, v_r = 0, v_o = 0, s1 = 0, s2 = 0,
      zetaPowerMMinusOne = 0, mPlusTwo = 0, zetaMPlusTwo = 0, zetaMPlusTwoBigInt = 0,
      foldedH = 0, lb = 0, rb = 0, ob = 0, rlb = 0, rl = 0, linearizedPolynomialDigest = 0,
      tmp = 0, v_t = 0, u_s1b = 0, u_s2b = 0, s3Commit = 0, secondPart = 0, thirdPart = 0,
      alphaSquareLagrangeB = 0\<rparr>"

definition body ::
  "('f::field, 'g::ab_group_add, 't, 'e, 'srs, 'x) env \<Rightarrow> ('f, 'g, 't, 'e, 'srs, 'x) step list" where
  "body E = challengeSteps E @ vanishingSteps E @ publicInputSteps @ quotientSteps
              @ foldSteps E @ digestSteps E @ [batchStep E]"

text \<open>\<open>exec\<close> runs the function from a state and gives the outcome with the state at
  the exit; \<open>Verify\<close> is the call.\<close>

definition exec ::
  "('f::field, 'g::ab_group_add, 't, 'e, 'srs, 'x) env \<Rightarrow> ('f, 'g, 't, 'srs, 'x) state
     \<Rightarrow> 'e outcome \<times> ('f, 'g, 't, 'srs, 'x) state" where
  "exec E s = (case run (body E) s of
                 (Some res, s') \<Rightarrow> (res, s')
               | (None, s') \<Rightarrow> (finalStep E s', s'))"

definition Verify ::
  "('f::field, 'g::ab_group_add, 't, 'e, 'srs, 'x) env \<Rightarrow> ('f, 'g, 'x) Proof
     \<Rightarrow> ('f, 'g, 'srs) VerifyingKey \<Rightarrow> 'f list \<Rightarrow> 'e outcome" where
  "Verify E p k w = fst (exec E (entry E p k w))"

subsection \<open>Observations of a call\<close>

text \<open>\<open>challengesDerived\<close>: lines 36 to 86 fall through to line 88, that is, no index
  expression panics and no transcript operation returns an error.  \<open>challengeState\<close> is
  the state at line 88; its fields \<open>gamma\<close>, \<open>alpha\<close> and \<open>zeta\<close> are the challenges.\<close>

definition challengesDerived ::
  "('f::field, 'g::ab_group_add, 't, 'e, 'srs, 'x) env \<Rightarrow> ('f, 'g, 'x) Proof
     \<Rightarrow> ('f, 'g, 'srs) VerifyingKey \<Rightarrow> 'f list \<Rightarrow> bool" where
  "challengesDerived E p k w \<longleftrightarrow> fst (run (challengeSteps E) (entry E p k w)) = None"

definition challengeState ::
  "('f::field, 'g::ab_group_add, 't, 'e, 'srs, 'x) env \<Rightarrow> ('f, 'g, 'x) Proof
     \<Rightarrow> ('f, 'g, 'srs) VerifyingKey \<Rightarrow> 'f list \<Rightarrow> ('f, 'g, 't, 'srs, 'x) state" where
  "challengeState E p k w = snd (run (challengeSteps E) (entry E p k w))"

text \<open>The value of \<^verbatim>\<open>pi\<close> at line 117, when line 88 is reached in the state \<open>s\<close>.\<close>

definition publicInput ::
  "('f::field, 'g, 't, 'e, 'srs, 'x) env \<Rightarrow> ('f, 'g, 't, 'srs, 'x) state \<Rightarrow> 'f" where
  "publicInput E s =
     v_pi (snd (run (vanishingSteps E @ (publicInputSteps :: ('f, 'g, 't, 'e, 'srs, 'x) step list)) s))"

text \<open>The state in which the call ends.\<close>

definition exitState ::
  "('f::field, 'g::ab_group_add, 't, 'e, 'srs, 'x) env \<Rightarrow> ('f, 'g, 'x) Proof
     \<Rightarrow> ('f, 'g, 'srs) VerifyingKey \<Rightarrow> 'f list \<Rightarrow> ('f, 'g, 't, 'srs, 'x) state" where
  "exitState E p k w = snd (exec E (entry E p k w))"

text \<open>The three checks of a call, read off the state at the exit: the comparison of
  line 151 (the two local variables are not written after it), the call of
  \<^verbatim>\<open>kzg.BatchVerifySinglePoint\<close> of line 223 and the call of \<^verbatim>\<open>kzg.Verify\<close> of line 240.\<close>

definition quotientCheck ::
  "('f::field, 'g::ab_group_add, 't, 'e, 'srs, 'x) env \<Rightarrow> ('f, 'g, 'x) Proof
     \<Rightarrow> ('f, 'g, 'srs) VerifyingKey \<Rightarrow> 'f list \<Rightarrow> bool" where
  "quotientCheck E p k w \<longleftrightarrow>
     claimedQuotient (exitState E p k w) = linearizedPolynomialZeta (exitState E p k w)"

definition batchCheck ::
  "('f::field, 'g::ab_group_add, 't, 'e, 'srs, 'x) env \<Rightarrow> ('f, 'g, 'x) Proof
     \<Rightarrow> ('f, 'g, 'srs) VerifyingKey \<Rightarrow> 'f list \<Rightarrow> 'e option" where
  "batchCheck E p k w =
     BatchVerifySinglePoint E
       [foldedH (exitState E p k w), linearizedPolynomialDigest (exitState E p k w),
        LRO p ! 0, LRO p ! 1, LRO p ! 2, S k ! 0, S k ! 1]
       (BatchedProof p) (KZGSRS k)"

definition singleCheck ::
  "('f, 'g, 't, 'e, 'srs, 'x) env \<Rightarrow> ('f, 'g, 'x) Proof
     \<Rightarrow> ('f, 'g, 'srs) VerifyingKey \<Rightarrow> 'e option" where
  "singleCheck E p k = kzgVerify E (Z p) (ZShiftedOpening p) (KZGSRS k)"

subsection \<open>The specification's closed form of the public input polynomial\<close>

text \<open>The \<open>i\<close>-th Lagrange polynomial of the domain \<open>{g^0, ..., g^(n-1)}\<close> of the \<open>n\<close>-th
  roots of unity, in closed form: \<open>L_i(x) = (g^i / n) (x^n - 1) / (x - g^i)\<close>; for \<open>i = 0\<close>
  it is the specification's \<open>L_0(x) = (1/n) (x^n - 1) / (x - 1)\<close>.  \<open>publicInputSum\<close> is
  the direct sum of the \<open>w_i L_i(x)\<close>.\<close>

definition lagrangeBasis :: "nat \<Rightarrow> 'f::field \<Rightarrow> nat \<Rightarrow> 'f \<Rightarrow> 'f" where
  "lagrangeBasis n g i x = g ^ i / of_nat n * ((x ^ n - 1) / (x - g ^ i))"

definition publicInputSum :: "nat \<Rightarrow> 'f::field \<Rightarrow> 'f list \<Rightarrow> 'f \<Rightarrow> 'f" where
  "publicInputSum n g w x = (\<Sum>i\<leftarrow>[0..<length w]. w ! i * lagrangeBasis n g i x)"

subsection \<open>A small instance\<close>

text \<open>An instance on which the model is evaluated: the field of the rationals, the group
  of the integers with multiplication by an integer as scalar multiplication, a transcript
  that accumulates the bound bytes and whose every digest is the one byte \<open>c\<close>, and KZG
  checks that accept.  The domain has size 2 and generator \<open>-1\<close>.\<close>

definition demoEnv :: "byte \<Rightarrow> (rat, int, byte list, string, unit, unit) env" where
  "demoEnv c =
     \<lparr>Marshal = (\<lambda>g. [word_of_int g]),
      NewTranscript = (\<lambda>labels. []),
      Bind = (\<lambda>tr label b. Inr (tr @ b)),
      ComputeChallenge = (\<lambda>tr label. Inr ([c], tr)),
      ExpNegative = (\<lambda>x e. 0),
      ToBigIntRegular = (\<lambda>x. \<lfloor>x\<rfloor>),
      ScalarMultiplication = (\<lambda>g e. e * g),
      BatchVerifySinglePoint = (\<lambda>ds bp srs. None),
      kzgVerify = (\<lambda>z op srs. None)\<rparr>"

definition demoProof :: "rat \<Rightarrow> (rat, int, unit) Proof" where
  "demoProof q =
     \<lparr>LRO = [1, 2, 3], Z = 4, H = [5, 6, 7],
      BatchedProof = \<lparr>ClaimedValues = [q, 1, 1, 1, 1, 1, 1], BatchRest = ()\<rparr>,
      ZShiftedOpening = \<lparr>ClaimedValue = 1, OpeningRest = ()\<rparr>\<rparr>"

definition demoKey :: "(rat, int, unit) VerifyingKey" where
  "demoKey =
     \<lparr>Size = 2, SizeInv = 1 / 2, Generator = - 1, Shifter = [2, 3], S = [8, 9, 10],
      Ql = 11, Qr = 12, Qm = 13, Qo = 14, Qk = 15, KZGSRS = ()\<rparr>"

subsection \<open>Properties of lists of statements\<close>

text \<open>A quantity that no statement of a list changes is the same after the list, however
  the list ends.\<close>

definition keeps :: "('s \<Rightarrow> 'a) \<Rightarrow> ('s \<Rightarrow> 'r option \<times> 's) \<Rightarrow> bool" where
  "keeps X f \<longleftrightarrow> (\<forall>s. X (snd (f s)) = X s)"

text \<open>Every outcome with which a statement can end the call satisfies \<open>P\<close>.\<close>

definition ends :: "('r \<Rightarrow> bool) \<Rightarrow> ('s \<Rightarrow> 'r option \<times> 's) \<Rightarrow> bool" where
  "ends P f \<longleftrightarrow> (\<forall>s. case fst (f s) of None \<Rightarrow> True | Some res \<Rightarrow> P res)"

section \<open>Running statements\<close>

declare run.simps(2) [simp del]

lemma run_append:
  "run (xs @ ys) s =
     (case run xs s of (Some res, s') \<Rightarrow> (Some res, s') | (None, s') \<Rightarrow> run ys s')"
  by (induction xs arbitrary: s) (auto simp: run.simps(2) split: prod.splits option.splits)

lemma run_append3:
  "run (a @ b @ c @ rest) s =
     (case run (a @ b @ c) s of (Some res, s') \<Rightarrow> (Some res, s') | (None, s') \<Rightarrow> run rest s')"
  using run_append [of "a @ b @ c" rest s] by simp

lemma run_upd: "run (upd f # rest) s = run rest (f s)"
  by (simp add: upd_def run.simps(2))

lemma run_load_Some: "rd s = Some v \<Longrightarrow> run (load rd wr # rest) s = run rest (wr v s)"
  by (simp add: load_def run.simps(2))

lemma run_load_None: "rd s = None \<Longrightarrow> run (load rd wr # rest) s = (Some Panic, s)"
  by (simp add: load_def run.simps(2))

lemma run_checkQuotient:
  "run (checkQuotient # rest) s =
     (if claimedQuotient s \<noteq> linearizedPolynomialZeta s
      then (Some (Return (Some errWrongClaimedQuotient)), s) else run rest s)"
  by (simp add: checkQuotient_def run.simps(2))

lemma index_Some: "i < length xs \<Longrightarrow> index xs i = Some (xs ! i)"
  by (simp add: index_def)

lemma index_None: "length xs \<le> i \<Longrightarrow> index xs i = None"
  by (simp add: index_def)

lemma index_0: "xs \<noteq> [] \<Longrightarrow> index xs 0 = Some (xs ! 0)"
  by (simp add: index_def)

lemma run_keeps:
  assumes "list_all (keeps X) steps"
  shows "X (snd (run steps s)) = X s"
  using assms
proof (induction steps arbitrary: s)
  case Nil
  show ?case by simp
next
  case (Cons f rest)
  from Cons.prems have rest: "list_all (keeps X) rest" and "keeps X f"
    by simp_all
  then have f: "X (snd (f s)) = X s"
    by (simp add: keeps_def)
  show ?case
  proof (cases "f s")
    case (Pair res s')
    with f have s': "X s' = X s" by simp
    show ?thesis
    proof (cases res)
      case None
      with Pair s' Cons.IH [OF rest, of s'] show ?thesis by (simp add: run.simps(2))
    next
      case (Some a)
      with Pair s' show ?thesis by (simp add: run.simps(2))
    qed
  qed
qed

lemma keeps_upd: "keeps X (upd f) \<longleftrightarrow> (\<forall>s. X (f s) = X s)"
  by (simp add: keeps_def upd_def)

lemma keeps_load: "(\<And>v s. X (wr v s) = X s) \<Longrightarrow> keeps X (load rd wr)"
  by (simp add: keeps_def load_def split: option.splits)

lemma keeps_checkQuotient: "keeps X checkQuotient"
  by (simp add: keeps_def checkQuotient_def)

lemma keeps_bindStep: "(\<And>s tr. X (s\<lparr>fs := tr\<rparr>) = X s) \<Longrightarrow> keeps X (bindStep E label point)"
  by (simp add: keeps_def bindStep_def split: option.splits sum.splits)

lemma keeps_challengeStep:
  "(\<And>c s tr. X (wr c (s\<lparr>fs := tr\<rparr>)) = X s) \<Longrightarrow> keeps X (challengeStep E label wr)"
  by (simp add: keeps_def challengeStep_def split: sum.splits prod.splits)

lemma keeps_batchStep: "keeps X (batchStep E)"
  by (simp add: keeps_def batchStep_def split: option.splits)

lemma forLoop_keeps:
  assumes "\<And>i s. X (loopBody i s) = X s"
  shows "X (forLoop i s) = X s"
proof (induction i s rule: forLoop.induct)
  case (1 i s)
  show ?case
    by (subst forLoop.simps) (simp add: 1 assms)
qed

section \<open>The caller's structures\<close>

lemma loopBody_inputs: "(v_proof (loopBody i s), vk (loopBody i s)) = (v_proof s, vk s)"
  by (simp add: loopBody_def Let_def)

lemma body_keeps_inputs: "list_all (keeps (\<lambda>s. (v_proof s, vk s))) (body E)"
  by (simp add: body_def challengeSteps_def vanishingSteps_def publicInputSteps_def
      quotientSteps_def foldSteps_def digestSteps_def keeps_upd keeps_load keeps_checkQuotient
      keeps_bindStep keeps_challengeStep keeps_batchStep
      forLoop_keeps [where X = "\<lambda>s. (v_proof s, vk s)", OF loopBody_inputs])

lemma snd_exec: "snd (exec E s) = snd (run (body E) s)"
  by (simp add: exec_def split: prod.splits option.splits)

text \<open>
  Claim C9.  Whatever the arguments and however the call ends (a return or a panic), the
  \<^verbatim>\<open>Proof\<close> and the \<^verbatim>\<open>VerifyingKey\<close> behind the pointer arguments are, at the exit, equal
  to what they were at the entry: every statement writes a local variable, and the points
  and field elements taken from the two structures are copied into local variables before
  any scalar multiplication or addition writes them.
\<close>

theorem Verify_leaves_inputs:
  "v_proof (exitState E p k w) = p \<and> vk (exitState E p k w) = k"
  using run_keeps [OF body_keeps_inputs, of E "entry E p k w"]
  by (simp add: exitState_def snd_exec entry_def)

section \<open>Bytes to field elements\<close>

text \<open>In a field where \<open>q\<close> is zero, that is, whose characteristic divides \<open>q\<close>, as the
  order of a finite field does, \<^verbatim>\<open>SetBytes\<close> reduces the big-endian integer modulo \<open>q\<close>.\<close>

lemma SetBytes_reduces:
  assumes "(of_nat q :: 'f::field) = 0"
  shows "(SetBytes bs :: 'f) = of_nat (bytesToNat bs mod q)"
proof -
  have "(of_nat (bytesToNat bs) :: 'f)
          = of_nat (q * (bytesToNat bs div q) + bytesToNat bs mod q)"
    by simp
  also have "\<dots> = of_nat q * of_nat (bytesToNat bs div q) + of_nat (bytesToNat bs mod q)"
    by (simp only: of_nat_add of_nat_mult)
  finally show ?thesis
    by (simp add: SetBytes_def assms)
qed

section \<open>The stages of the function\<close>

lemmas step_simps = run_upd run_load_Some run_checkQuotient index_Some index_0 claimedValue_def

lemma run_bindStep:
  "run (bindStep E label point # rest) s =
     (case point s of
        None \<Rightarrow> (Some Panic, s)
      | Some p \<Rightarrow>
          (case Bind E (fs s) label (Marshal E p) of
             Inl err \<Rightarrow> (Some (Return (Some (LibraryError err))), s)
           | Inr t' \<Rightarrow> run rest (s\<lparr>fs := t'\<rparr>)))"
  by (simp add: bindStep_def run.simps(2) split: option.splits sum.splits)

lemma run_challengeStep:
  "run (challengeStep E label wr # rest) s =
     (case ComputeChallenge E (fs s) label of
        Inl err \<Rightarrow> (Some (Return (Some (LibraryError err))), s)
      | Inr (b, t') \<Rightarrow> run rest (wr (SetBytes b) (s\<lparr>fs := t'\<rparr>)))"
  by (simp add: challengeStep_def run.simps(2) split: sum.splits prod.splits)

lemma run_batchStep:
  "run [batchStep E] s =
     (case digests s of
        None \<Rightarrow> (Some Panic, s)
      | Some ds \<Rightarrow>
          (case BatchVerifySinglePoint E ds (BatchedProof (v_proof s)) (KZGSRS (vk s)) of
             Some err \<Rightarrow> (Some (Return (Some (LibraryError err))), s)
           | None \<Rightarrow> (None, s)))"
  by (simp add: batchStep_def run.simps(2) split: option.splits)

text \<open>Lines 36 to 86, when they fall through.\<close>

lemma challenge_stage:
  assumes "run (challengeSteps E) s = (None, s')"
  shows "\<exists>t1 t2 t3 bg t4 t5 ba t6 t7 t8 t9 bz t10.
           3 \<le> length (LRO (v_proof s)) \<and> 3 \<le> length (H (v_proof s))
         \<and> Bind E (fs s) ''gamma'' (Marshal E (LRO (v_proof s) ! 0)) = Inr t1
         \<and> Bind E t1 ''gamma'' (Marshal E (LRO (v_proof s) ! 1)) = Inr t2
         \<and> Bind E t2 ''gamma'' (Marshal E (LRO (v_proof s) ! 2)) = Inr t3
         \<and> ComputeChallenge E t3 ''gamma'' = Inr (bg, t4)
         \<and> Bind E t4 ''alpha'' (Marshal E (Z (v_proof s))) = Inr t5
         \<and> ComputeChallenge E t5 ''alpha'' = Inr (ba, t6)
         \<and> Bind E t6 ''zeta'' (Marshal E (H (v_proof s) ! 0)) = Inr t7
         \<and> Bind E t7 ''zeta'' (Marshal E (H (v_proof s) ! 1)) = Inr t8
         \<and> Bind E t8 ''zeta'' (Marshal E (H (v_proof s) ! 2)) = Inr t9
         \<and> ComputeChallenge E t9 ''zeta'' = Inr (bz, t10)
         \<and> s' = s\<lparr>fs := t10, gamma := SetBytes bg, alpha := SetBytes ba, zeta := SetBytes bz\<rparr>"
  using assms
  by (auto simp: challengeSteps_def run_bindStep run_challengeStep index_def
      split: option.splits sum.splits if_splits prod.splits)

lemma challengeState_run:
  "challengesDerived E p k w \<Longrightarrow>
     run (challengeSteps E) (entry E p k w) = (None, challengeState E p k w)"
  by (cases "run (challengeSteps E) (entry E p k w)")
     (simp add: challengesDerived_def challengeState_def)

lemma challengeState_fields:
  assumes "challengesDerived E p k w"
  shows "v_proof (challengeState E p k w) = p" "vk (challengeState E p k w) = k"
    "publicWitness (challengeState E p k w) = w" "v_pi (challengeState E p k w) = 0"
    "3 \<le> length (LRO p)" "3 \<le> length (H p)"
  using challenge_stage [OF challengeState_run [OF assms]]
  by (auto simp: entry_def)

lemma exec_after_challenges:
  assumes "challengesDerived E p k w"
  shows "exec E (entry E p k w) =
           (case run (vanishingSteps E @ publicInputSteps @ quotientSteps
                        @ foldSteps E @ digestSteps E @ [batchStep E]) (challengeState E p k w) of
              (Some res, s') \<Rightarrow> (res, s')
            | (None, s') \<Rightarrow> (finalStep E s', s'))"
  by (simp add: exec_def body_def run_append [of "challengeSteps E"]
      challengeState_run [OF assms])

lemma forLoop_fields:
  "v_proof (forLoop i s) = v_proof s" "vk (forLoop i s) = vk s"
  "gamma (forLoop i s) = gamma s" "alpha (forLoop i s) = alpha s" "zeta (forLoop i s) = zeta s"
  "zetaPowerM (forLoop i s) = zetaPowerM s" "v_one (forLoop i s) = v_one s"
  "lagrangeOne (forLoop i s) = lagrangeOne s"
  by (rule forLoop_keeps, simp add: loopBody_def Let_def)+

text \<open>Lines 88 to 153, from a state \<open>s\<close> at line 88, when the proof carries seven
  claimed values.\<close>

lemma quotient_stage:
  fixes s :: "('f::field, 'g, 't, 'srs, 'x) state"
  assumes "7 \<le> length (ClaimedValues (BatchedProof (v_proof s)))"
  shows "\<exists>s'. run (vanishingSteps E @ publicInputSteps @ quotientSteps) s =
              ((if claimedQuotient s' \<noteq> linearizedPolynomialZeta s'
                then Some (Return (Some errWrongClaimedQuotient)) else None), s')
         \<and> claimedQuotient s' = ClaimedValues (BatchedProof (v_proof s)) ! 0
         \<and> linearizedPolynomialZeta s' =
              (ClaimedValues (BatchedProof (v_proof s)) ! 1 + publicInput E s
               + alpha s * ClaimedValue (ZShiftedOpening (v_proof s))
                 * (ClaimedValues (BatchedProof (v_proof s)) ! 2
                    + ClaimedValues (BatchedProof (v_proof s)) ! 5 + gamma s)
                 * (ClaimedValues (BatchedProof (v_proof s)) ! 3
                    + ClaimedValues (BatchedProof (v_proof s)) ! 6 + gamma s)
                 * (ClaimedValues (BatchedProof (v_proof s)) ! 4 + gamma s)
               - (alpha s)\<^sup>2
                 * (SizeInv (vk s) * ((zeta s ^ unat (Size (vk s)) - 1) / (zeta s - 1))))
              / (zeta s ^ unat (Size (vk s)) - 1)
         \<and> v_l s' = ClaimedValues (BatchedProof (v_proof s)) ! 2
         \<and> v_r s' = ClaimedValues (BatchedProof (v_proof s)) ! 3
         \<and> v_o s' = ClaimedValues (BatchedProof (v_proof s)) ! 4
         \<and> s1 s' = ClaimedValues (BatchedProof (v_proof s)) ! 5
         \<and> s2 s' = ClaimedValues (BatchedProof (v_proof s)) ! 6
         \<and> zu s' = ClaimedValue (ZShiftedOpening (v_proof s))
         \<and> alphaSquareLagrange s' =
              (alpha s)\<^sup>2 * (SizeInv (vk s) * ((zeta s ^ unat (Size (vk s)) - 1) / (zeta s - 1)))
         \<and> gamma s' = gamma s \<and> alpha s' = alpha s \<and> zeta s' = zeta s
         \<and> v_proof s' = v_proof s \<and> vk s' = vk s"
proof -
  from assms have ne: "ClaimedValues (BatchedProof (v_proof s)) \<noteq> []"
    by auto
  show ?thesis
    using assms ne
    apply (simp add: run_append vanishingSteps_def publicInputSteps_def quotientSteps_def
        publicInput_def Exp_def step_simps forLoop_fields)
    apply (auto simp: ac_simps power2_eq_square)
    done
qed

lemma run_ends:
  assumes "list_all (ends P) steps" and "fst (run steps s) = Some res"
  shows "P res"
  using assms
proof (induction steps arbitrary: s)
  case Nil
  then show ?case by simp
next
  case (Cons f rest)
  from Cons.prems have rest: "list_all (ends P) rest" and f: "ends P f"
    by simp_all
  show ?case
  proof (cases "f s")
    case (Pair out s')
    show ?thesis
    proof (cases out)
      case None
      with Pair Cons.prems(2) have "fst (run rest s') = Some res"
        by (simp add: run.simps(2))
      with Cons.IH [OF rest] show ?thesis .
    next
      case (Some a)
      with Pair Cons.prems(2) have "a = res"
        by (simp add: run.simps(2))
      moreover from f Pair Some have "P a"
        by (auto simp: ends_def dest: spec [of _ s])
      ultimately show ?thesis by simp
    qed
  qed
qed

lemma ends_upd: "ends P (upd f)"
  by (simp add: ends_def upd_def)

lemma ends_load: "P Panic \<Longrightarrow> ends P (load rd wr)"
  by (simp add: ends_def load_def split: option.splits)

lemma ends_batchStep:
  "P Panic \<Longrightarrow> (\<And>e. P (Return (Some (LibraryError e)))) \<Longrightarrow> ends P (batchStep E)"
  by (simp add: ends_def batchStep_def split: option.splits)

lemma tail_not_quotient_error:
  "fst (run (foldSteps E @ digestSteps E @ [batchStep E]) s) \<noteq> Some (Return (Some errWrongClaimedQuotient))"
proof
  assume a: "fst (run (foldSteps E @ digestSteps E @ [batchStep E]) s) = Some (Return (Some errWrongClaimedQuotient))"
  have "list_all (ends (\<lambda>res. res \<noteq> Return (Some errWrongClaimedQuotient)))
          (foldSteps E @ digestSteps E @ [batchStep E])"
    by (simp add: foldSteps_def digestSteps_def ends_upd ends_load ends_batchStep)
  from run_ends [OF this a] show False by simp
qed

text \<open>\<^verbatim>\<open>int64(vk.Size) + 2\<close> does not wrap when \<open>Size + 2 < 2^63\<close>.\<close>

lemma sint_of_nat_small:
  assumes "n < 2 ^ 63"
  shows "sint (word_of_nat n :: 64 word) = int n"
proof -
  have "int n < 2 ^ 63"
    using assms by (metis of_nat_less_iff of_nat_numeral of_nat_power)
  moreover have "- (2 ^ 63) \<le> int n"
    by (rule order_trans [of _ 0]) simp_all
  ultimately have "signed_take_bit 63 (int n) = int n"
    by (rule signed_take_bit_int_eq_self [rotated])
  then show ?thesis
    by (simp add: signed_of_nat)
qed

lemma sint_Size_plus_two:
  fixes x :: "64 word"
  assumes "unat x + 2 < 2 ^ 63"
  shows "sint (x + 2) = int (unat x + 2)"
proof -
  have "x + 2 = word_of_nat (unat x + 2)"
    by simp
  then show ?thesis
    using sint_of_nat_small [OF assms] by (simp add: add.commute)
qed

text \<open>Lines 155 to 165 and lines 167 to 220, when their index expressions are in range.\<close>

lemma fold_stage:
  assumes "3 \<le> length (H (v_proof s))"
  shows "run (foldSteps E) s =
     (None, s\<lparr>mPlusTwo := sint (Size (vk s) + 2),
         zetaMPlusTwo := Exp E (zeta s) (sint (Size (vk s) + 2)),
         zetaMPlusTwoBigInt := ToBigIntRegular E (Exp E (zeta s) (sint (Size (vk s) + 2))),
         foldedH :=
           ScalarMultiplication E
             (ScalarMultiplication E (H (v_proof s) ! 2)
                (ToBigIntRegular E (Exp E (zeta s) (sint (Size (vk s) + 2))))
              + H (v_proof s) ! 1)
             (ToBigIntRegular E (Exp E (zeta s) (sint (Size (vk s) + 2))))
           + H (v_proof s) ! 0\<rparr>)"
proof -
  from assms have ne: "H (v_proof s) \<noteq> []" by auto
  show ?thesis
    using assms ne by (simp add: foldSteps_def step_simps)
qed

lemma digest_stage:
  fixes s :: "('f::field, 'g::ab_group_add, 't, 'srs, 'x) state"
  assumes "3 \<le> length (S (vk s))" and "2 \<le> length (Shifter (vk s))"
  shows "\<exists>s'. run (digestSteps E) s = (None, s')
    \<and> linearizedPolynomialDigest s' =
        ScalarMultiplication E (Ql (vk s)) (ToBigIntRegular E (v_l s))
        + ScalarMultiplication E (Qr (vk s)) (ToBigIntRegular E (v_r s))
        + ScalarMultiplication E (Qm (vk s)) (ToBigIntRegular E (v_l s * v_r s))
        + ScalarMultiplication E (Qo (vk s)) (ToBigIntRegular E (v_o s))
        + Qk (vk s)
        + ScalarMultiplication E (S (vk s) ! 2)
            (ToBigIntRegular E
               (alpha s * zu s * (v_l s + s1 s + gamma s) * (v_r s + s2 s + gamma s)))
        - ScalarMultiplication E (Z (v_proof s))
            (ToBigIntRegular E
               (alpha s * (v_l s + zeta s + gamma s)
                * (v_r s + Shifter (vk s) ! 0 * zeta s + gamma s)
                * (v_o s + Shifter (vk s) ! 1 * zeta s + gamma s)))
        + ScalarMultiplication E (Z (v_proof s)) (ToBigIntRegular E (alphaSquareLagrange s))
    \<and> foldedH s' = foldedH s \<and> v_proof s' = v_proof s \<and> vk s' = vk s
    \<and> claimedQuotient s' = claimedQuotient s
    \<and> linearizedPolynomialZeta s' = linearizedPolynomialZeta s"
proof -
  from assms have ne: "Shifter (vk s) \<noteq> []" by auto
  show ?thesis
    using assms ne
    apply (simp add: digestSteps_def step_simps)
    apply (simp add: ac_simps)
    done
qed

lemma digests_Some:
  assumes "3 \<le> length (LRO (v_proof s))" and "3 \<le> length (S (vk s))"
  shows "digests s =
           Some [foldedH s, linearizedPolynomialDigest s, LRO (v_proof s) ! 0, LRO (v_proof s) ! 1,
                 LRO (v_proof s) ! 2, S (vk s) ! 0, S (vk s) ! 1]"
proof -
  from assms have "LRO (v_proof s) \<noteq> []" and "S (vk s) \<noteq> []"
    by auto
  with assms show ?thesis
    by (simp add: digests_def index_Some index_0)
qed

text \<open>The call up to the comparison of line 151.\<close>

lemma reach_check:
  fixes E :: "('f::field, 'g::ab_group_add, 't, 'e, 'srs, 'x) env"
  assumes "challengesDerived E p k w"
    and "7 \<le> length (ClaimedValues (BatchedProof p))"
  shows "\<exists>s'. exec E (entry E p k w) =
           (if claimedQuotient s' \<noteq> linearizedPolynomialZeta s'
            then (Return (Some errWrongClaimedQuotient), s')
            else (case run (foldSteps E @ digestSteps E @ [batchStep E]) s' of
                    (Some res, s'') \<Rightarrow> (res, s'')
                  | (None, s'') \<Rightarrow> (finalStep E s'', s'')))
         \<and> claimedQuotient s' = ClaimedValues (BatchedProof p) ! 0
         \<and> linearizedPolynomialZeta s' =
              (ClaimedValues (BatchedProof p) ! 1 + publicInput E (challengeState E p k w)
               + alpha (challengeState E p k w) * ClaimedValue (ZShiftedOpening p)
                 * (ClaimedValues (BatchedProof p) ! 2 + ClaimedValues (BatchedProof p) ! 5
                    + gamma (challengeState E p k w))
                 * (ClaimedValues (BatchedProof p) ! 3 + ClaimedValues (BatchedProof p) ! 6
                    + gamma (challengeState E p k w))
                 * (ClaimedValues (BatchedProof p) ! 4 + gamma (challengeState E p k w))
               - (alpha (challengeState E p k w))\<^sup>2
                 * (SizeInv k * ((zeta (challengeState E p k w) ^ unat (Size k) - 1)
                                 / (zeta (challengeState E p k w) - 1))))
              / (zeta (challengeState E p k w) ^ unat (Size k) - 1)
         \<and> v_l s' = ClaimedValues (BatchedProof p) ! 2
         \<and> v_r s' = ClaimedValues (BatchedProof p) ! 3
         \<and> v_o s' = ClaimedValues (BatchedProof p) ! 4
         \<and> s1 s' = ClaimedValues (BatchedProof p) ! 5
         \<and> s2 s' = ClaimedValues (BatchedProof p) ! 6
         \<and> zu s' = ClaimedValue (ZShiftedOpening p)
         \<and> alphaSquareLagrange s' =
              (alpha (challengeState E p k w))\<^sup>2
              * (SizeInv k * ((zeta (challengeState E p k w) ^ unat (Size k) - 1)
                              / (zeta (challengeState E p k w) - 1)))
         \<and> gamma s' = gamma (challengeState E p k w)
         \<and> alpha s' = alpha (challengeState E p k w)
         \<and> zeta s' = zeta (challengeState E p k w)
         \<and> v_proof s' = p \<and> vk s' = k"
proof -
  let ?s = "challengeState E p k w"
  note fields = challengeState_fields [OF assms(1)]
  from assms(2) fields have "7 \<le> length (ClaimedValues (BatchedProof (v_proof ?s)))"
    by simp
  from quotient_stage [OF this, of E] obtain s' where
    run: "run (vanishingSteps E @ publicInputSteps @ quotientSteps) ?s =
            ((if claimedQuotient s' \<noteq> linearizedPolynomialZeta s'
              then Some (Return (Some errWrongClaimedQuotient)) else None), s')"
    and rest: "claimedQuotient s' = ClaimedValues (BatchedProof (v_proof ?s)) ! 0
         \<and> linearizedPolynomialZeta s' =
              (ClaimedValues (BatchedProof (v_proof ?s)) ! 1 + publicInput E ?s
               + alpha ?s * ClaimedValue (ZShiftedOpening (v_proof ?s))
                 * (ClaimedValues (BatchedProof (v_proof ?s)) ! 2
                    + ClaimedValues (BatchedProof (v_proof ?s)) ! 5 + gamma ?s)
                 * (ClaimedValues (BatchedProof (v_proof ?s)) ! 3
                    + ClaimedValues (BatchedProof (v_proof ?s)) ! 6 + gamma ?s)
                 * (ClaimedValues (BatchedProof (v_proof ?s)) ! 4 + gamma ?s)
               - (alpha ?s)\<^sup>2
                 * (SizeInv (vk ?s) * ((zeta ?s ^ unat (Size (vk ?s)) - 1) / (zeta ?s - 1))))
              / (zeta ?s ^ unat (Size (vk ?s)) - 1)
         \<and> v_l s' = ClaimedValues (BatchedProof (v_proof ?s)) ! 2
         \<and> v_r s' = ClaimedValues (BatchedProof (v_proof ?s)) ! 3
         \<and> v_o s' = ClaimedValues (BatchedProof (v_proof ?s)) ! 4
         \<and> s1 s' = ClaimedValues (BatchedProof (v_proof ?s)) ! 5
         \<and> s2 s' = ClaimedValues (BatchedProof (v_proof ?s)) ! 6
         \<and> zu s' = ClaimedValue (ZShiftedOpening (v_proof ?s))
         \<and> alphaSquareLagrange s' =
              (alpha ?s)\<^sup>2 * (SizeInv (vk ?s) * ((zeta ?s ^ unat (Size (vk ?s)) - 1) / (zeta ?s - 1)))
         \<and> gamma s' = gamma ?s \<and> alpha s' = alpha ?s \<and> zeta s' = zeta ?s
         \<and> v_proof s' = v_proof ?s \<and> vk s' = vk ?s"
    by blast
  have "exec E (entry E p k w) =
           (if claimedQuotient s' \<noteq> linearizedPolynomialZeta s'
            then (Return (Some errWrongClaimedQuotient), s')
            else (case run (foldSteps E @ digestSteps E @ [batchStep E]) s' of
                    (Some res, s'') \<Rightarrow> (res, s'')
                  | (None, s'') \<Rightarrow> (finalStep E s'', s'')))"
    by (simp add: exec_after_challenges [OF assms(1)] run_append3 run)
  with rest show ?thesis
    unfolding fields by blast
qed

text \<open>Lines 155 to 238.\<close>

lemma tail_stage:
  fixes s :: "('f::field, 'g::ab_group_add, 't, 'srs, 'x) state"
  assumes "3 \<le> length (H (v_proof s))" and "3 \<le> length (LRO (v_proof s))"
    and "3 \<le> length (S (vk s))" and "2 \<le> length (Shifter (vk s))"
  shows "\<exists>s'. run (foldSteps E @ digestSteps E @ [batchStep E]) s =
           (case BatchVerifySinglePoint E
                   [foldedH s', linearizedPolynomialDigest s', LRO (v_proof s) ! 0,
                    LRO (v_proof s) ! 1, LRO (v_proof s) ! 2, S (vk s) ! 0, S (vk s) ! 1]
                   (BatchedProof (v_proof s)) (KZGSRS (vk s)) of
              Some err \<Rightarrow> Some (Return (Some (LibraryError err)))
            | None \<Rightarrow> None, s')
    \<and> foldedH s' =
        ScalarMultiplication E
          (ScalarMultiplication E (H (v_proof s) ! 2)
             (ToBigIntRegular E (Exp E (zeta s) (sint (Size (vk s) + 2))))
           + H (v_proof s) ! 1)
          (ToBigIntRegular E (Exp E (zeta s) (sint (Size (vk s) + 2))))
        + H (v_proof s) ! 0
    \<and> linearizedPolynomialDigest s' =
        ScalarMultiplication E (Ql (vk s)) (ToBigIntRegular E (v_l s))
        + ScalarMultiplication E (Qr (vk s)) (ToBigIntRegular E (v_r s))
        + ScalarMultiplication E (Qm (vk s)) (ToBigIntRegular E (v_l s * v_r s))
        + ScalarMultiplication E (Qo (vk s)) (ToBigIntRegular E (v_o s))
        + Qk (vk s)
        + ScalarMultiplication E (S (vk s) ! 2)
            (ToBigIntRegular E
               (alpha s * zu s * (v_l s + s1 s + gamma s) * (v_r s + s2 s + gamma s)))
        - ScalarMultiplication E (Z (v_proof s))
            (ToBigIntRegular E
               (alpha s * (v_l s + zeta s + gamma s)
                * (v_r s + Shifter (vk s) ! 0 * zeta s + gamma s)
                * (v_o s + Shifter (vk s) ! 1 * zeta s + gamma s)))
        + ScalarMultiplication E (Z (v_proof s)) (ToBigIntRegular E (alphaSquareLagrange s))
    \<and> v_proof s' = v_proof s \<and> vk s' = vk s
    \<and> claimedQuotient s' = claimedQuotient s
    \<and> linearizedPolynomialZeta s' = linearizedPolynomialZeta s"
proof -
  have "\<exists>sf. run (foldSteps E) s = (None, sf)
    \<and> v_proof sf = v_proof s \<and> vk sf = vk s \<and> v_l sf = v_l s \<and> v_r sf = v_r s
    \<and> v_o sf = v_o s \<and> s1 sf = s1 s \<and> s2 sf = s2 s \<and> zu sf = zu s \<and> gamma sf = gamma s
    \<and> alpha sf = alpha s \<and> zeta sf = zeta s \<and> alphaSquareLagrange sf = alphaSquareLagrange s
    \<and> claimedQuotient sf = claimedQuotient s
    \<and> linearizedPolynomialZeta sf = linearizedPolynomialZeta s
    \<and> foldedH sf =
        ScalarMultiplication E
          (ScalarMultiplication E (H (v_proof s) ! 2)
             (ToBigIntRegular E (Exp E (zeta s) (sint (Size (vk s) + 2))))
           + H (v_proof s) ! 1)
          (ToBigIntRegular E (Exp E (zeta s) (sint (Size (vk s) + 2))))
        + H (v_proof s) ! 0"
    by (simp add: fold_stage [OF assms(1)])
  then obtain sf where f: "run (foldSteps E) s = (None, sf)"
    and ff: "v_proof sf = v_proof s" "vk sf = vk s" "v_l sf = v_l s" "v_r sf = v_r s"
    "v_o sf = v_o s" "s1 sf = s1 s" "s2 sf = s2 s" "zu sf = zu s" "gamma sf = gamma s"
    "alpha sf = alpha s" "zeta sf = zeta s" "alphaSquareLagrange sf = alphaSquareLagrange s"
    "claimedQuotient sf = claimedQuotient s"
    "linearizedPolynomialZeta sf = linearizedPolynomialZeta s"
    "foldedH sf =
        ScalarMultiplication E
          (ScalarMultiplication E (H (v_proof s) ! 2)
             (ToBigIntRegular E (Exp E (zeta s) (sint (Size (vk s) + 2))))
           + H (v_proof s) ! 1)
          (ToBigIntRegular E (Exp E (zeta s) (sint (Size (vk s) + 2))))
        + H (v_proof s) ! 0"
    by blast
  from assms ff have "3 \<le> length (S (vk sf))" and "2 \<le> length (Shifter (vk sf))"
    by simp_all
  from digest_stage [OF this, of E] obtain s' where
    d: "run (digestSteps E) sf = (None, s')"
    and dd: "linearizedPolynomialDigest s' =
        ScalarMultiplication E (Ql (vk sf)) (ToBigIntRegular E (v_l sf))
        + ScalarMultiplication E (Qr (vk sf)) (ToBigIntRegular E (v_r sf))
        + ScalarMultiplication E (Qm (vk sf)) (ToBigIntRegular E (v_l sf * v_r sf))
        + ScalarMultiplication E (Qo (vk sf)) (ToBigIntRegular E (v_o sf))
        + Qk (vk sf)
        + ScalarMultiplication E (S (vk sf) ! 2)
            (ToBigIntRegular E
               (alpha sf * zu sf * (v_l sf + s1 sf + gamma sf) * (v_r sf + s2 sf + gamma sf)))
        - ScalarMultiplication E (Z (v_proof sf))
            (ToBigIntRegular E
               (alpha sf * (v_l sf + zeta sf + gamma sf)
                * (v_r sf + Shifter (vk sf) ! 0 * zeta sf + gamma sf)
                * (v_o sf + Shifter (vk sf) ! 1 * zeta sf + gamma sf)))
        + ScalarMultiplication E (Z (v_proof sf)) (ToBigIntRegular E (alphaSquareLagrange sf))"
    and df: "foldedH s' = foldedH sf" "v_proof s' = v_proof sf" "vk s' = vk sf"
      "claimedQuotient s' = claimedQuotient sf"
      "linearizedPolynomialZeta s' = linearizedPolynomialZeta sf"
    by blast
  from assms df ff have "3 \<le> length (LRO (v_proof s'))" and "3 \<le> length (S (vk s'))"
    by simp_all
  note ds = digests_Some [OF this]
  have r: "run (foldSteps E @ digestSteps E @ [batchStep E]) s =
           (case BatchVerifySinglePoint E
                   [foldedH s', linearizedPolynomialDigest s', LRO (v_proof s) ! 0,
                    LRO (v_proof s) ! 1, LRO (v_proof s) ! 2, S (vk s) ! 0, S (vk s) ! 1]
                   (BatchedProof (v_proof s)) (KZGSRS (vk s)) of
              Some err \<Rightarrow> Some (Return (Some (LibraryError err)))
            | None \<Rightarrow> None, s')"
    by (simp add: run_append f d run_batchStep ds df ff split: option.splits)
  show ?thesis
    by (intro exI [of _ s'] conjI) (simp_all only: r dd df ff)
qed

text \<open>The outcome of a call whose index expressions are all in range.\<close>

lemma tail_keeps_check:
  "list_all (keeps (\<lambda>s. (claimedQuotient s, linearizedPolynomialZeta s)))
     (foldSteps E @ digestSteps E @ [batchStep E])"
  by (simp add: foldSteps_def digestSteps_def keeps_upd keeps_load keeps_batchStep)

lemma digest_keeps_foldedH: "list_all (keeps foldedH) (digestSteps E @ [batchStep E])"
  by (simp add: digestSteps_def keeps_upd keeps_load keeps_batchStep)

lemma snd_case_run:
  "snd (case run steps s of (Some res, s') \<Rightarrow> (res, s') | (None, s') \<Rightarrow> (f s', s'))
     = snd (run steps s)"
  by (simp split: prod.splits option.splits)

lemma fst_case_run:
  "fst (case run steps s of (Some res, s') \<Rightarrow> (res, s') | (None, s') \<Rightarrow> (f s', s'))
     = (case fst (run steps s) of Some res \<Rightarrow> res | None \<Rightarrow> f (snd (run steps s)))"
  by (simp split: prod.splits option.splits)

lemma quotientCheck_iff:
  fixes E :: "('f::field, 'g::ab_group_add, 't, 'e, 'srs, 'x) env"
  assumes "challengesDerived E p k w"
    and "7 \<le> length (ClaimedValues (BatchedProof p))"
  shows "quotientCheck E p k w \<longleftrightarrow>
         ClaimedValues (BatchedProof p) ! 0 =
           (ClaimedValues (BatchedProof p) ! 1 + publicInput E (challengeState E p k w)
            + alpha (challengeState E p k w) * ClaimedValue (ZShiftedOpening p)
              * (ClaimedValues (BatchedProof p) ! 2 + ClaimedValues (BatchedProof p) ! 5
                 + gamma (challengeState E p k w))
              * (ClaimedValues (BatchedProof p) ! 3 + ClaimedValues (BatchedProof p) ! 6
                 + gamma (challengeState E p k w))
              * (ClaimedValues (BatchedProof p) ! 4 + gamma (challengeState E p k w))
            - (alpha (challengeState E p k w))\<^sup>2
              * (SizeInv k * ((zeta (challengeState E p k w) ^ unat (Size k) - 1)
                              / (zeta (challengeState E p k w) - 1))))
           / (zeta (challengeState E p k w) ^ unat (Size k) - 1)"
    and "quotientCheck E p k w \<longleftrightarrow> Verify E p k w \<noteq> Return (Some errWrongClaimedQuotient)"
proof -
  from reach_check [OF assms] obtain s' where
    ex: "exec E (entry E p k w) =
           (if claimedQuotient s' \<noteq> linearizedPolynomialZeta s'
            then (Return (Some errWrongClaimedQuotient), s')
            else (case run (foldSteps E @ digestSteps E @ [batchStep E]) s' of
                    (Some res, s'') \<Rightarrow> (res, s'')
                  | (None, s'') \<Rightarrow> (finalStep E s'', s'')))"
    and cq: "claimedQuotient s' = ClaimedValues (BatchedProof p) ! 0"
    and lpz: "linearizedPolynomialZeta s' =
              (ClaimedValues (BatchedProof p) ! 1 + publicInput E (challengeState E p k w)
               + alpha (challengeState E p k w) * ClaimedValue (ZShiftedOpening p)
                 * (ClaimedValues (BatchedProof p) ! 2 + ClaimedValues (BatchedProof p) ! 5
                    + gamma (challengeState E p k w))
                 * (ClaimedValues (BatchedProof p) ! 3 + ClaimedValues (BatchedProof p) ! 6
                    + gamma (challengeState E p k w))
                 * (ClaimedValues (BatchedProof p) ! 4 + gamma (challengeState E p k w))
               - (alpha (challengeState E p k w))\<^sup>2
                 * (SizeInv k * ((zeta (challengeState E p k w) ^ unat (Size k) - 1)
                                 / (zeta (challengeState E p k w) - 1))))
              / (zeta (challengeState E p k w) ^ unat (Size k) - 1)"
    by blast
  have keep: "(claimedQuotient (exitState E p k w), linearizedPolynomialZeta (exitState E p k w))
                = (claimedQuotient s', linearizedPolynomialZeta s')"
    using run_keeps [OF tail_keeps_check, of E s']
    by (simp add: exitState_def ex snd_case_run)
  then have q: "quotientCheck E p k w \<longleftrightarrow> claimedQuotient s' = linearizedPolynomialZeta s'"
    by (simp add: quotientCheck_def)
  show "quotientCheck E p k w \<longleftrightarrow>
         ClaimedValues (BatchedProof p) ! 0 =
           (ClaimedValues (BatchedProof p) ! 1 + publicInput E (challengeState E p k w)
            + alpha (challengeState E p k w) * ClaimedValue (ZShiftedOpening p)
              * (ClaimedValues (BatchedProof p) ! 2 + ClaimedValues (BatchedProof p) ! 5
                 + gamma (challengeState E p k w))
              * (ClaimedValues (BatchedProof p) ! 3 + ClaimedValues (BatchedProof p) ! 6
                 + gamma (challengeState E p k w))
              * (ClaimedValues (BatchedProof p) ! 4 + gamma (challengeState E p k w))
            - (alpha (challengeState E p k w))\<^sup>2
              * (SizeInv k * ((zeta (challengeState E p k w) ^ unat (Size k) - 1)
                              / (zeta (challengeState E p k w) - 1))))
           / (zeta (challengeState E p k w) ^ unat (Size k) - 1)"
    by (simp only: q cq lpz)
  show "quotientCheck E p k w \<longleftrightarrow> Verify E p k w \<noteq> Return (Some errWrongClaimedQuotient)"
    using tail_not_quotient_error [of E s']
    by (auto simp: q Verify_def ex finalStep_def split: prod.splits option.splits)
qed

lemma Verify_cases:
  fixes E :: "('f::field, 'g::ab_group_add, 't, 'e, 'srs, 'x) env"
  assumes "challengesDerived E p k w"
    and "7 \<le> length (ClaimedValues (BatchedProof p))"
    and "3 \<le> length (S k)" and "2 \<le> length (Shifter k)"
  shows "Verify E p k w =
           (if \<not> quotientCheck E p k w then Return (Some errWrongClaimedQuotient)
            else case batchCheck E p k w of
                   Some err \<Rightarrow> Return (Some (LibraryError err))
                 | None \<Rightarrow> Return (map_option LibraryError (singleCheck E p k)))"
proof -
  note fields = challengeState_fields [OF assms(1)]
  from reach_check [OF assms(1,2)] obtain s' where
    ex: "exec E (entry E p k w) =
           (if claimedQuotient s' \<noteq> linearizedPolynomialZeta s'
            then (Return (Some errWrongClaimedQuotient), s')
            else (case run (foldSteps E @ digestSteps E @ [batchStep E]) s' of
                    (Some res, s'') \<Rightarrow> (res, s'')
                  | (None, s'') \<Rightarrow> (finalStep E s'', s'')))"
    and s': "v_proof s' = p" "vk s' = k"
    by blast
  show ?thesis
  proof (cases "claimedQuotient s' \<noteq> linearizedPolynomialZeta s'")
    case True
    then have "Verify E p k w = Return (Some errWrongClaimedQuotient)"
      by (simp add: Verify_def ex)
    with quotientCheck_iff(2) [OF assms(1,2)] show ?thesis
      by simp
  next
    case False
    from fields assms s' have "3 \<le> length (H (v_proof s'))" "3 \<le> length (LRO (v_proof s'))"
      "3 \<le> length (S (vk s'))" "2 \<le> length (Shifter (vk s'))"
      by simp_all
    from tail_stage [OF this, of E] obtain sx where
      t: "run (foldSteps E @ digestSteps E @ [batchStep E]) s' =
           (case BatchVerifySinglePoint E
                   [foldedH sx, linearizedPolynomialDigest sx, LRO (v_proof s') ! 0,
                    LRO (v_proof s') ! 1, LRO (v_proof s') ! 2, S (vk s') ! 0, S (vk s') ! 1]
                   (BatchedProof (v_proof s')) (KZGSRS (vk s')) of
              Some err \<Rightarrow> Some (Return (Some (LibraryError err)))
            | None \<Rightarrow> None, sx)"
      and sx: "v_proof sx = v_proof s'" "vk sx = vk s'"
      by blast
    have exit: "exitState E p k w = sx"
      using False by (simp add: exitState_def ex t split: option.splits)
    have "Verify E p k w \<noteq> Return (Some errWrongClaimedQuotient)"
      using False tail_not_quotient_error [of E s']
      by (auto simp: Verify_def ex finalStep_def split: prod.splits option.splits)
    with quotientCheck_iff(2) [OF assms(1,2)] have q: "quotientCheck E p k w"
      by simp
    show ?thesis
      using False
      by (simp add: q Verify_def ex t batchCheck_def singleCheck_def exit s' sx finalStep_def
          split: option.splits)
  qed
qed

text \<open>The state at the exit does not depend on what the two KZG checks answer.\<close>

lemma kzg_irrelevant:
  "bindStep (E\<lparr>BatchVerifySinglePoint := b, kzgVerify := v\<rparr>) = bindStep E"
  "challengeStep (E\<lparr>BatchVerifySinglePoint := b, kzgVerify := v\<rparr>) = challengeStep E"
  "Exp (E\<lparr>BatchVerifySinglePoint := b, kzgVerify := v\<rparr>) = Exp E"
  by (intro ext, simp add: bindStep_def challengeStep_def Exp_def
      split: option.splits sum.splits prod.splits)+

lemma stages_kzg_irrelevant:
  "challengeSteps (E\<lparr>BatchVerifySinglePoint := b, kzgVerify := v\<rparr>) = challengeSteps E"
  "vanishingSteps (E\<lparr>BatchVerifySinglePoint := b, kzgVerify := v\<rparr>) = vanishingSteps E"
  "foldSteps (E\<lparr>BatchVerifySinglePoint := b, kzgVerify := v\<rparr>) = foldSteps E"
  "digestSteps (E\<lparr>BatchVerifySinglePoint := b, kzgVerify := v\<rparr>) = digestSteps E"
  "entry (E\<lparr>BatchVerifySinglePoint := b, kzgVerify := v\<rparr>) = entry E"
  by (simp_all add: challengeSteps_def vanishingSteps_def foldSteps_def digestSteps_def
      kzg_irrelevant entry_def fun_eq_iff)

lemma snd_run_batchStep: "snd (run (steps @ [batchStep E]) s) = snd (run steps s)"
  by (simp add: run_append run_batchStep split: prod.splits option.splits)

lemma exitState_kzg_irrelevant:
  fixes E :: "('f::field, 'g::ab_group_add, 't, 'e, 'srs, 'x) env"
  shows "exitState (E\<lparr>BatchVerifySinglePoint := b, kzgVerify := v\<rparr>) p k w = exitState E p k w"
proof -
  have "snd (run (body (E\<lparr>BatchVerifySinglePoint := b, kzgVerify := v\<rparr>)) s) = snd (run (body E) s)"
    for s :: "('f, 'g, 't, 'srs, 'x) state"
    using snd_run_batchStep [of "challengeSteps E @ vanishingSteps E @ publicInputSteps
        @ quotientSteps @ foldSteps E @ digestSteps E" E s]
      snd_run_batchStep [of "challengeSteps E @ vanishingSteps E @ publicInputSteps
        @ quotientSteps @ foldSteps E @ digestSteps E"
        "E\<lparr>BatchVerifySinglePoint := b, kzgVerify := v\<rparr>" s]
    by (simp add: body_def stages_kzg_irrelevant)
  then show ?thesis
    by (simp add: exitState_def snd_exec stages_kzg_irrelevant)
qed

lemma checks_kzg_irrelevant:
  "challengesDerived (E\<lparr>BatchVerifySinglePoint := b, kzgVerify := v\<rparr>) p k w
     = challengesDerived E p k w"
  "quotientCheck (E\<lparr>BatchVerifySinglePoint := b, kzgVerify := v\<rparr>) p k w = quotientCheck E p k w"
  by (simp_all add: challengesDerived_def quotientCheck_def exitState_kzg_irrelevant
      stages_kzg_irrelevant)

text \<open>The two commitments at the exit of a call that passes the quotient check.\<close>

lemma exit_foldedH:
  fixes E :: "('f::field, 'g::ab_group_add, 't, 'e, 'srs, 'x) env"
  assumes "challengesDerived E p k w"
    and "7 \<le> length (ClaimedValues (BatchedProof p))"
    and "quotientCheck E p k w"
  shows "foldedH (exitState E p k w) =
           ScalarMultiplication E
             (ScalarMultiplication E (H p ! 2)
                (ToBigIntRegular E (Exp E (zeta (challengeState E p k w)) (sint (Size k + 2))))
              + H p ! 1)
             (ToBigIntRegular E (Exp E (zeta (challengeState E p k w)) (sint (Size k + 2))))
           + H p ! 0"
proof -
  note fields = challengeState_fields [OF assms(1)]
  from reach_check [OF assms(1,2)] obtain s' where
    ex: "exec E (entry E p k w) =
           (if claimedQuotient s' \<noteq> linearizedPolynomialZeta s'
            then (Return (Some errWrongClaimedQuotient), s')
            else (case run (foldSteps E @ digestSteps E @ [batchStep E]) s' of
                    (Some res, s'') \<Rightarrow> (res, s'')
                  | (None, s'') \<Rightarrow> (finalStep E s'', s'')))"
    and s': "v_proof s' = p" "vk s' = k" "zeta s' = zeta (challengeState E p k w)"
    by blast
  from assms(3) quotientCheck_iff(2) [OF assms(1,2)]
  have "Verify E p k w \<noteq> Return (Some errWrongClaimedQuotient)"
    by simp
  then have pass: "claimedQuotient s' = linearizedPolynomialZeta s'"
    by (cases "claimedQuotient s' = linearizedPolynomialZeta s'") (simp_all add: Verify_def ex)
  from fields s' have "3 \<le> length (H (v_proof s'))"
    by simp
  note f = fold_stage [OF this, of E]
  have "foldedH (exitState E p k w)
          = foldedH (snd (run (digestSteps E @ [batchStep E]) (snd (run (foldSteps E) s'))))"
    using pass by (simp add: exitState_def ex snd_case_run run_append [of "foldSteps E"] f)
  also have "\<dots> = foldedH (snd (run (foldSteps E) s'))"
    by (rule run_keeps [OF digest_keeps_foldedH])
  finally show ?thesis
    by (simp add: f s')
qed

lemma exit_digest:
  fixes E :: "('f::field, 'g::ab_group_add, 't, 'e, 'srs, 'x) env"
  assumes "challengesDerived E p k w"
    and "7 \<le> length (ClaimedValues (BatchedProof p))"
    and "3 \<le> length (S k)" and "2 \<le> length (Shifter k)"
    and "quotientCheck E p k w"
  shows "linearizedPolynomialDigest (exitState E p k w) =
      ScalarMultiplication E (Ql k) (ToBigIntRegular E (ClaimedValues (BatchedProof p) ! 2))
      + ScalarMultiplication E (Qr k) (ToBigIntRegular E (ClaimedValues (BatchedProof p) ! 3))
      + ScalarMultiplication E (Qm k)
          (ToBigIntRegular E (ClaimedValues (BatchedProof p) ! 2 * ClaimedValues (BatchedProof p) ! 3))
      + ScalarMultiplication E (Qo k) (ToBigIntRegular E (ClaimedValues (BatchedProof p) ! 4))
      + Qk k
      + ScalarMultiplication E (S k ! 2)
          (ToBigIntRegular E
             (alpha (challengeState E p k w) * ClaimedValue (ZShiftedOpening p)
              * (ClaimedValues (BatchedProof p) ! 2 + ClaimedValues (BatchedProof p) ! 5
                 + gamma (challengeState E p k w))
              * (ClaimedValues (BatchedProof p) ! 3 + ClaimedValues (BatchedProof p) ! 6
                 + gamma (challengeState E p k w))))
      - ScalarMultiplication E (Z p)
          (ToBigIntRegular E
             (alpha (challengeState E p k w)
              * (ClaimedValues (BatchedProof p) ! 2 + zeta (challengeState E p k w)
                 + gamma (challengeState E p k w))
              * (ClaimedValues (BatchedProof p) ! 3
                 + Shifter k ! 0 * zeta (challengeState E p k w)
                 + gamma (challengeState E p k w))
              * (ClaimedValues (BatchedProof p) ! 4
                 + Shifter k ! 1 * zeta (challengeState E p k w)
                 + gamma (challengeState E p k w))))
      + ScalarMultiplication E (Z p)
          (ToBigIntRegular E
             ((alpha (challengeState E p k w))\<^sup>2
              * (SizeInv k * ((zeta (challengeState E p k w) ^ unat (Size k) - 1)
                              / (zeta (challengeState E p k w) - 1)))))"
    and "zu (exitState E p k w) = ClaimedValue (ZShiftedOpening p)"
proof -
  note fields = challengeState_fields [OF assms(1)]
  from reach_check [OF assms(1,2)] obtain s' where
    ex: "exec E (entry E p k w) =
           (if claimedQuotient s' \<noteq> linearizedPolynomialZeta s'
            then (Return (Some errWrongClaimedQuotient), s')
            else (case run (foldSteps E @ digestSteps E @ [batchStep E]) s' of
                    (Some res, s'') \<Rightarrow> (res, s'')
                  | (None, s'') \<Rightarrow> (finalStep E s'', s'')))"
    and s': "v_l s' = ClaimedValues (BatchedProof p) ! 2"
      "v_r s' = ClaimedValues (BatchedProof p) ! 3"
      "v_o s' = ClaimedValues (BatchedProof p) ! 4"
      "s1 s' = ClaimedValues (BatchedProof p) ! 5"
      "s2 s' = ClaimedValues (BatchedProof p) ! 6"
      "zu s' = ClaimedValue (ZShiftedOpening p)"
      "alphaSquareLagrange s' =
              (alpha (challengeState E p k w))\<^sup>2
              * (SizeInv k * ((zeta (challengeState E p k w) ^ unat (Size k) - 1)
                              / (zeta (challengeState E p k w) - 1)))"
      "gamma s' = gamma (challengeState E p k w)"
      "alpha s' = alpha (challengeState E p k w)"
      "zeta s' = zeta (challengeState E p k w)"
      "v_proof s' = p" "vk s' = k"
    by blast
  from assms(5) quotientCheck_iff(2) [OF assms(1,2)]
  have "Verify E p k w \<noteq> Return (Some errWrongClaimedQuotient)"
    by simp
  then have pass: "claimedQuotient s' = linearizedPolynomialZeta s'"
    by (cases "claimedQuotient s' = linearizedPolynomialZeta s'") (simp_all add: Verify_def ex)
  from fields assms s' have "3 \<le> length (H (v_proof s'))" "3 \<le> length (LRO (v_proof s'))"
    "3 \<le> length (S (vk s'))" "2 \<le> length (Shifter (vk s'))"
    by simp_all
  from tail_stage [OF this, of E] obtain sx where
    t: "run (foldSteps E @ digestSteps E @ [batchStep E]) s' =
           (case BatchVerifySinglePoint E
                   [foldedH sx, linearizedPolynomialDigest sx, LRO (v_proof s') ! 0,
                    LRO (v_proof s') ! 1, LRO (v_proof s') ! 2, S (vk s') ! 0, S (vk s') ! 1]
                   (BatchedProof (v_proof s')) (KZGSRS (vk s')) of
              Some err \<Rightarrow> Some (Return (Some (LibraryError err)))
            | None \<Rightarrow> None, sx)"
    and d: "linearizedPolynomialDigest sx =
        ScalarMultiplication E (Ql (vk s')) (ToBigIntRegular E (v_l s'))
        + ScalarMultiplication E (Qr (vk s')) (ToBigIntRegular E (v_r s'))
        + ScalarMultiplication E (Qm (vk s')) (ToBigIntRegular E (v_l s' * v_r s'))
        + ScalarMultiplication E (Qo (vk s')) (ToBigIntRegular E (v_o s'))
        + Qk (vk s')
        + ScalarMultiplication E (S (vk s') ! 2)
            (ToBigIntRegular E
               (alpha s' * zu s' * (v_l s' + s1 s' + gamma s') * (v_r s' + s2 s' + gamma s')))
        - ScalarMultiplication E (Z (v_proof s'))
            (ToBigIntRegular E
               (alpha s' * (v_l s' + zeta s' + gamma s')
                * (v_r s' + Shifter (vk s') ! 0 * zeta s' + gamma s')
                * (v_o s' + Shifter (vk s') ! 1 * zeta s' + gamma s')))
        + ScalarMultiplication E (Z (v_proof s')) (ToBigIntRegular E (alphaSquareLagrange s'))"
    by blast
  have exit: "exitState E p k w = sx"
    using pass by (simp add: exitState_def ex t split: option.splits)
  show "linearizedPolynomialDigest (exitState E p k w) =
      ScalarMultiplication E (Ql k) (ToBigIntRegular E (ClaimedValues (BatchedProof p) ! 2))
      + ScalarMultiplication E (Qr k) (ToBigIntRegular E (ClaimedValues (BatchedProof p) ! 3))
      + ScalarMultiplication E (Qm k)
          (ToBigIntRegular E (ClaimedValues (BatchedProof p) ! 2 * ClaimedValues (BatchedProof p) ! 3))
      + ScalarMultiplication E (Qo k) (ToBigIntRegular E (ClaimedValues (BatchedProof p) ! 4))
      + Qk k
      + ScalarMultiplication E (S k ! 2)
          (ToBigIntRegular E
             (alpha (challengeState E p k w) * ClaimedValue (ZShiftedOpening p)
              * (ClaimedValues (BatchedProof p) ! 2 + ClaimedValues (BatchedProof p) ! 5
                 + gamma (challengeState E p k w))
              * (ClaimedValues (BatchedProof p) ! 3 + ClaimedValues (BatchedProof p) ! 6
                 + gamma (challengeState E p k w))))
      - ScalarMultiplication E (Z p)
          (ToBigIntRegular E
             (alpha (challengeState E p k w)
              * (ClaimedValues (BatchedProof p) ! 2 + zeta (challengeState E p k w)
                 + gamma (challengeState E p k w))
              * (ClaimedValues (BatchedProof p) ! 3
                 + Shifter k ! 0 * zeta (challengeState E p k w)
                 + gamma (challengeState E p k w))
              * (ClaimedValues (BatchedProof p) ! 4
                 + Shifter k ! 1 * zeta (challengeState E p k w)
                 + gamma (challengeState E p k w))))
      + ScalarMultiplication E (Z p)
          (ToBigIntRegular E
             ((alpha (challengeState E p k w))\<^sup>2
              * (SizeInv k * ((zeta (challengeState E p k w) ^ unat (Size k) - 1)
                              / (zeta (challengeState E p k w) - 1)))))"
    by (simp only: exit d s')
  have "list_all (keeps zu) (foldSteps E @ digestSteps E @ [batchStep E])"
    by (simp add: foldSteps_def digestSteps_def keeps_upd keeps_load keeps_batchStep)
  from run_keeps [OF this, of s'] show "zu (exitState E p k w) = ClaimedValue (ZShiftedOpening p)"
    using pass by (simp add: exitState_def ex snd_case_run s')
qed

text \<open>At a root of the vanishing polynomial the divisor of line 148 is zero and the
  quotient that the call expects is zero.\<close>

lemma quotientCheck_at_root:
  fixes E :: "('f::field, 'g::ab_group_add, 't, 'e, 'srs, 'x) env"
  assumes "challengesDerived E p k w"
    and "7 \<le> length (ClaimedValues (BatchedProof p))"
    and "zeta (challengeState E p k w) ^ unat (Size k) = 1"
  shows "quotientCheck E p k w \<longleftrightarrow> ClaimedValues (BatchedProof p) ! 0 = 0"
  unfolding quotientCheck_iff(1) [OF assms(1,2)] assms(3) by simp

text \<open>Index expressions out of range, when no transcript operation returns an error.\<close>

lemma run_load_index:
  "run (load (\<lambda>s. index (f s) i) wr # rest) s =
     (if i < length (f s) then run rest (wr (f s ! i) s) else (Some Panic, s))"
  by (simp add: load_def index_def run.simps(2))

lemma run_bindStep_index:
  assumes "\<forall>tr l b e. Bind E tr l b \<noteq> Inl e"
  shows "run (bindStep E label (\<lambda>s. index (f s) i) # rest) s =
     (if i < length (f s)
      then run rest (s\<lparr>fs := projr (Bind E (fs s) label (Marshal E (f s ! i)))\<rparr>)
      else (Some Panic, s))"
  using assms by (simp add: run_bindStep index_def split: sum.splits)

lemma run_bindStep_Some:
  assumes "\<forall>tr l b e. Bind E tr l b \<noteq> Inl e"
  shows "run (bindStep E label (\<lambda>s. Some (f s)) # rest) s =
     run rest (s\<lparr>fs := projr (Bind E (fs s) label (Marshal E (f s)))\<rparr>)"
  using assms by (simp add: run_bindStep split: sum.splits)

lemma run_challengeStep_total:
  assumes "\<forall>tr l e. ComputeChallenge E tr l \<noteq> Inl e"
  shows "run (challengeStep E label wr # rest) s =
     run rest (wr (SetBytes (fst (projr (ComputeChallenge E (fs s) label))))
                 (s\<lparr>fs := snd (projr (ComputeChallenge E (fs s) label))\<rparr>))"
  using assms by (simp add: run_challengeStep split: sum.splits prod.splits)

lemma challenges_total:
  fixes E :: "('f::field, 'g::ab_group_add, 't, 'e, 'srs, 'x) env"
  assumes "\<forall>tr l b e. Bind E tr l b \<noteq> Inl e"
    and "\<forall>tr l e. ComputeChallenge E tr l \<noteq> Inl e"
  shows "fst (run (challengeSteps E) s) =
           (if 3 \<le> length (LRO (v_proof s)) \<and> 3 \<le> length (H (v_proof s))
            then None else Some Panic)"
  by (simp add: challengeSteps_def run_bindStep_index [OF assms(1)]
      run_bindStep_Some [OF assms(1)] run_challengeStep_total [OF assms(2)])


lemma quotient_panic:
  fixes s :: "('f::field, 'g, 't, 'srs, 'x) state"
  assumes "\<not> 7 \<le> length (ClaimedValues (BatchedProof (v_proof s)))"
  shows "fst (run (vanishingSteps E @ publicInputSteps @ quotientSteps @ rest) s) = Some Panic"
  using assms
  by (simp add: run_append vanishingSteps_def publicInputSteps_def quotientSteps_def run_upd
      claimedValue_def run_load_index forLoop_fields)

lemma tail_panic:
  fixes s :: "('f::field, 'g::ab_group_add, 't, 'srs, 'x) state"
  assumes "3 \<le> length (H (v_proof s))"
    and "\<not> (3 \<le> length (S (vk s)) \<and> 2 \<le> length (Shifter (vk s)))"
  shows "fst (run (foldSteps E @ digestSteps E @ [batchStep E]) s) = Some Panic"
  using assms
  by (auto simp add: run_append foldSteps_def digestSteps_def run_upd run_load_index)

section \<open>The loop of lines 104 to 115\<close>

text \<open>Invariant of the loop at the index \<open>i\<close>: \<^verbatim>\<open>acc\<close> is \<open>g^i\<close>, \<^verbatim>\<open>den\<close> is
  \<open>zeta - g^i\<close> and \<^verbatim>\<open>lagrange\<close> is \<open>c g^i / (zeta - g^i)\<close>, for the constant
  \<open>c = SizeInv (zeta^n - 1)\<close>.  The step divides by \<open>zeta - g^(i+1)\<close> and multiplies by
  \<open>zeta - g^i\<close>, which must not be zero.\<close>

lemma loopBody_fields:
  "vk (loopBody i s) = vk s" "zeta (loopBody i s) = zeta s"
  "acc (loopBody i s) = acc s * Generator (vk s)"
  "den (loopBody i s) = zeta s - acc s * Generator (vk s)"
  "lagrange (loopBody i s) =
     lagrange s * Generator (vk s) * den s / (zeta s - acc s * Generator (vk s))"
  "v_pi (loopBody i s) = v_pi s + lagrange s * publicWitness s ! i"
  by (simp_all add: loopBody_def Let_def)

lemma forLoop_pi:
  fixes s :: "('f::field, 'g, 't, 'srs, 'x) state"
  assumes "acc s = Generator (vk s) ^ i"
    and "den s = zeta s - Generator (vk s) ^ i"
    and "lagrange s = c * Generator (vk s) ^ i / (zeta s - Generator (vk s) ^ i)"
    and "\<forall>j < length (publicWitness s). zeta s \<noteq> Generator (vk s) ^ j"
  shows "v_pi (forLoop i s) =
           v_pi s + (\<Sum>j\<leftarrow>[i..<length (publicWitness s)].
                       publicWitness s ! j
                       * (c * Generator (vk s) ^ j / (zeta s - Generator (vk s) ^ j)))"
  using assms
proof (induction i s rule: forLoop.induct)
  case (1 i s)
  show ?case
  proof (cases "i < length (publicWitness s)")
    case False
    then show ?thesis
      by (subst forLoop.simps) simp
  next
    case True
    with "1.prems"(4) have nz: "zeta s - Generator (vk s) ^ i \<noteq> 0"
      by simp
    have p1: "acc (loopBody i s) = Generator (vk (loopBody i s)) ^ Suc i"
      by (simp add: loopBody_fields "1.prems"(1) mult.commute)
    have p2: "den (loopBody i s) = zeta (loopBody i s) - Generator (vk (loopBody i s)) ^ Suc i"
      by (simp add: loopBody_fields "1.prems"(1) mult.commute)
    have p3: "lagrange (loopBody i s) =
                 c * Generator (vk (loopBody i s)) ^ Suc i
                 / (zeta (loopBody i s) - Generator (vk (loopBody i s)) ^ Suc i)"
      using nz by (simp add: loopBody_fields "1.prems"(1,2,3) mult.commute)
    have p4: "\<forall>j < length (publicWitness (loopBody i s)).
                 zeta (loopBody i s) \<noteq> Generator (vk (loopBody i s)) ^ j"
      using "1.prems"(4) by (simp add: loopBody_fields publicWitness_loopBody)
    have step: "v_pi (forLoop (Suc i) (loopBody i s)) =
                  v_pi (loopBody i s)
                  + (\<Sum>j\<leftarrow>[Suc i..<length (publicWitness (loopBody i s))].
                       publicWitness (loopBody i s) ! j
                       * (c * Generator (vk (loopBody i s)) ^ j
                          / (zeta (loopBody i s) - Generator (vk (loopBody i s)) ^ j)))"
      by (rule "1.IH" [OF True p1 p2 p3 p4])
    show ?thesis
      by (subst forLoop.simps)
         (simp add: True step loopBody_fields publicWitness_loopBody upt_conv_Cons [OF True]
           "1.prems"(3) add.assoc mult.commute)
  qed
qed


lemma publicInput_sum:
  fixes s :: "('f::field, 'g, 't, 'srs, 'x) state"
  assumes "\<forall>j < length (publicWitness s). zeta s \<noteq> Generator (vk s) ^ j"
  shows "publicInput E s =
           v_pi s + (\<Sum>j\<leftarrow>[0..<length (publicWitness s)].
                       publicWitness s ! j
                       * (SizeInv (vk s) * (zeta s ^ unat (Size (vk s)) - 1) * Generator (vk s) ^ j
                          / (zeta s - Generator (vk s) ^ j)))"
proof -
  define s0 where "s0 = s\<lparr>v_one := 1, bExpo := uint (Size (vk s)),
      zetaPowerM := zeta s ^ unat (Size (vk s)), zzeta := zeta s ^ unat (Size (vk s)) - 1,
      acc := 1, den := zeta s - 1,
      lagrange := SizeInv (vk s) * (zeta s ^ unat (Size (vk s)) - 1) / (zeta s - 1),
      lagrangeOne := SizeInv (vk s) * (zeta s ^ unat (Size (vk s)) - 1) / (zeta s - 1)\<rparr>"
  have pub: "publicInput E s = v_pi (forLoop 0 s0)"
    by (simp add: publicInput_def run_append vanishingSteps_def publicInputSteps_def run_upd
        Exp_def s0_def mult.commute)
  have "v_pi (forLoop 0 s0) =
          v_pi s0 + (\<Sum>j\<leftarrow>[0..<length (publicWitness s0)].
                       publicWitness s0 ! j
                       * (SizeInv (vk s) * (zeta s ^ unat (Size (vk s)) - 1) * Generator (vk s0) ^ j
                          / (zeta s0 - Generator (vk s0) ^ j)))"
    by (rule forLoop_pi) (use assms in \<open>simp_all add: s0_def\<close>)
  with pub show ?thesis
    by (simp add: s0_def)
qed

section \<open>The small instance, evaluated\<close>

lemma demoKey_simps:
  "Size demoKey = 2" "SizeInv demoKey = 1 / 2" "Generator demoKey = - 1"
  "Shifter demoKey = [2, 3]" "S demoKey = [8, 9, 10]" "Ql demoKey = 11" "Qr demoKey = 12"
  "Qm demoKey = 13" "Qo demoKey = 14" "Qk demoKey = 15"
  by (simp_all add: demoKey_def)

lemma demoProof_simps:
  "LRO (demoProof q) = [1, 2, 3]" "Z (demoProof q) = 4" "H (demoProof q) = [5, 6, 7]"
  "ClaimedValues (BatchedProof (demoProof q)) = [q, 1, 1, 1, 1, 1, 1]"
  "ClaimedValue (ZShiftedOpening (demoProof q)) = 1"
  by (simp_all add: demoProof_def)

lemma demo_challenges:
  "run (challengeSteps (demoEnv c)) (entry (demoEnv c) (demoProof q) demoKey w) =
     (None, (entry (demoEnv c) (demoProof q) demoKey w)
              \<lparr>fs := [1, 2, 3, 4, 5, 6, 7], gamma := of_nat (unat c), alpha := of_nat (unat c),
               zeta := of_nat (unat c)\<rparr>)"
  by (simp add: challengeSteps_def run_bindStep run_challengeStep index_def entry_def
      demoEnv_def demoProof_def SetBytes_def bytesToNat_def)

lemma demo_derived: "challengesDerived (demoEnv c) (demoProof q) demoKey w"
  by (simp add: challengesDerived_def demo_challenges)

lemma demo_state:
  "gamma (challengeState (demoEnv c) (demoProof q) demoKey w) = of_nat (unat c)"
  "alpha (challengeState (demoEnv c) (demoProof q) demoKey w) = of_nat (unat c)"
  "zeta (challengeState (demoEnv c) (demoProof q) demoKey w) = of_nat (unat c)"
  by (simp_all add: challengeState_def demo_challenges)


lemma demo_publicInput:
  "publicInput (demoEnv 2) (challengeState (demoEnv 2) (demoProof q) demoKey [3, 5]) = 2"
proof -
  have "\<forall>j < length (publicWitness (challengeState (demoEnv 2) (demoProof q) demoKey [3, 5])).
          zeta (challengeState (demoEnv 2) (demoProof q) demoKey [3, 5])
          \<noteq> Generator (vk (challengeState (demoEnv 2) (demoProof q) demoKey [3, 5])) ^ j"
    by (simp add: challengeState_fields [OF demo_derived] demo_state demoKey_simps less_Suc_eq)
  from publicInput_sum [OF this, of "demoEnv 2"] show ?thesis
    by (simp add: challengeState_fields [OF demo_derived] demo_state demoKey_simps)
qed

lemma demo_quotientCheck:
  "quotientCheck (demoEnv 2) (demoProof q) demoKey [3, 5] \<longleftrightarrow> q = 31"
proof -
  have len: "7 \<le> length (ClaimedValues (BatchedProof (demoProof q)))"
    by (simp add: demoProof_simps)
  show ?thesis
    unfolding quotientCheck_iff(1) [OF demo_derived len]
    by (simp add: demo_state demo_publicInput demoProof_simps demoKey_simps)
qed

lemma demo_lengths:
  "7 \<le> length (ClaimedValues (BatchedProof (demoProof q)))"
  "3 \<le> length (S demoKey)" "2 \<le> length (Shifter demoKey)"
  by (simp_all add: demoProof_simps demoKey_simps)

lemma demo_checks:
  "batchCheck (demoEnv c) p k w = None" "singleCheck (demoEnv c) p k = None"
  by (simp_all add: batchCheck_def singleCheck_def demoEnv_def)

lemma demoEnv_simps:
  "ToBigIntRegular (demoEnv c) x = \<lfloor>x\<rfloor>" "ScalarMultiplication (demoEnv c) g e = e * g"
  by (simp_all add: demoEnv_def)

section \<open>The claimed quotient\<close>

text \<open>
  Claim C1.  When the challenges have been derived and the proof carries seven claimed
  values, read in the order quotient, linearized polynomial, a, b, c, s1, s2 (indices 0 to
  6), the call returns \<^verbatim>\<open>errWrongClaimedQuotient\<close> exactly when the claimed quotient
  differs from
  \<open>(linearizedPoly + PI(zeta) + alpha zu (a + s1 + gamma) (b + s2 + gamma) (c + gamma)
     - alpha^2 L0(zeta)) / (zeta^n - 1)\<close>,
  where \<open>PI(zeta)\<close> is the value of \<^verbatim>\<open>pi\<close> after the loop and
  \<open>L0(zeta) = SizeInv (zeta^n - 1) / (zeta - 1)\<close>.
\<close>

theorem Verify_quotient_check:
  fixes E :: "('f::field, 'g::ab_group_add, 't, 'e, 'srs, 'x) env"
  assumes "challengesDerived E p k w"
    and "7 \<le> length (ClaimedValues (BatchedProof p))"
  shows "Verify E p k w = Return (Some errWrongClaimedQuotient) \<longleftrightarrow>
         ClaimedValues (BatchedProof p) ! 0 \<noteq>
           (ClaimedValues (BatchedProof p) ! 1 + publicInput E (challengeState E p k w)
            + alpha (challengeState E p k w) * ClaimedValue (ZShiftedOpening p)
              * (ClaimedValues (BatchedProof p) ! 2 + ClaimedValues (BatchedProof p) ! 5
                 + gamma (challengeState E p k w))
              * (ClaimedValues (BatchedProof p) ! 3 + ClaimedValues (BatchedProof p) ! 6
                 + gamma (challengeState E p k w))
              * (ClaimedValues (BatchedProof p) ! 4 + gamma (challengeState E p k w))
            - (alpha (challengeState E p k w))\<^sup>2
              * (SizeInv k * ((zeta (challengeState E p k w) ^ unat (Size k) - 1)
                              / (zeta (challengeState E p k w) - 1))))
           / (zeta (challengeState E p k w) ^ unat (Size k) - 1)"
proof -
  let ?s = "challengeState E p k w"
  note fields = challengeState_fields [OF assms(1)]
  from assms(2) fields have "7 \<le> length (ClaimedValues (BatchedProof (v_proof ?s)))"
    by simp
  from quotient_stage [OF this, of E] obtain s' where
    run: "run (vanishingSteps E @ publicInputSteps @ quotientSteps) ?s =
            ((if claimedQuotient s' \<noteq> linearizedPolynomialZeta s'
              then Some (Return (Some errWrongClaimedQuotient)) else None), s')"
    and cq: "claimedQuotient s' = ClaimedValues (BatchedProof (v_proof ?s)) ! 0"
    and lpz: "linearizedPolynomialZeta s' =
              (ClaimedValues (BatchedProof (v_proof ?s)) ! 1 + publicInput E ?s
               + alpha ?s * ClaimedValue (ZShiftedOpening (v_proof ?s))
                 * (ClaimedValues (BatchedProof (v_proof ?s)) ! 2
                    + ClaimedValues (BatchedProof (v_proof ?s)) ! 5 + gamma ?s)
                 * (ClaimedValues (BatchedProof (v_proof ?s)) ! 3
                    + ClaimedValues (BatchedProof (v_proof ?s)) ! 6 + gamma ?s)
                 * (ClaimedValues (BatchedProof (v_proof ?s)) ! 4 + gamma ?s)
               - (alpha ?s)\<^sup>2
                 * (SizeInv (vk ?s) * ((zeta ?s ^ unat (Size (vk ?s)) - 1) / (zeta ?s - 1))))
              / (zeta ?s ^ unat (Size (vk ?s)) - 1)"
    by blast
  have "Verify E p k w = Return (Some errWrongClaimedQuotient) \<longleftrightarrow>
        claimedQuotient s' \<noteq> linearizedPolynomialZeta s'"
    using tail_not_quotient_error [of E s']
    by (auto simp: Verify_def exec_after_challenges [OF assms(1)] run_append3 run finalStep_def
        split: prod.splits option.splits)
  then show ?thesis
    by (simp only: cq lpz fields)
qed


theorem Verify_quotient_check_witness:
  "challengesDerived (demoEnv 2) (demoProof 30) demoKey [3, 5]
   \<and> 7 \<le> length (ClaimedValues (BatchedProof (demoProof 30)))
   \<and> Verify (demoEnv 2) (demoProof 30) demoKey [3, 5] = Return (Some errWrongClaimedQuotient)"
proof -
  have len: "7 \<le> length (ClaimedValues (BatchedProof (demoProof 30)))"
    by (simp add: demoProof_simps)
  from Verify_quotient_check [OF demo_derived len, of 2 "[3, 5]"]
  have "Verify (demoEnv 2) (demoProof 30) demoKey [3, 5] = Return (Some errWrongClaimedQuotient)"
    by (simp add: demo_state demo_publicInput demoProof_simps demoKey_simps)
  with demo_derived len show ?thesis by blast
qed

section \<open>The public inputs\<close>

text \<open>The closed form starts at the specification's \<open>L_0\<close> and obeys its recurrence
  \<open>L_(i+1)(x) = L_i(x) g (x - g^i) / (x - g^(i+1))\<close> off the domain point \<open>g^i\<close>.\<close>

lemma lagrangeBasis_0: "lagrangeBasis n g 0 x = 1 / of_nat n * ((x ^ n - 1) / (x - 1))"
  by (simp add: lagrangeBasis_def)

lemma lagrangeBasis_Suc:
  fixes x :: "'f::field"
  assumes "x \<noteq> g ^ i"
  shows "lagrangeBasis n g (Suc i) x =
           lagrangeBasis n g i x * g * (x - g ^ i) / (x - g ^ Suc i)"
  using assms by (simp add: lagrangeBasis_def)

text \<open>
  Claim C6.  When \<^verbatim>\<open>vk.SizeInv\<close> is the inverse of the size \<open>n\<close> and zeta is none of the
  domain points \<open>g^i\<close> with \<open>i < len(publicWitness)\<close>, the value of \<^verbatim>\<open>pi\<close> that the loop
  computes with its recurrence (one division per step, starting from
  \<open>L_0(zeta) = (1/n) (zeta^n - 1) / (zeta - 1)\<close>) is the direct sum of the
  \<open>w_i L_i(zeta)\<close> over the Lagrange polynomials in closed form.  The bound
  \<open>len(publicWitness) \<le> n\<close> is not needed.
\<close>

theorem publicInput_closed_form:
  fixes E :: "('f::field, 'g::ab_group_add, 't, 'e, 'srs, 'x) env"
  assumes "challengesDerived E p k w"
    and "SizeInv k = 1 / of_nat (unat (Size k))"
    and "\<forall>i < length w. zeta (challengeState E p k w) \<noteq> Generator k ^ i"
  shows "publicInput E (challengeState E p k w) =
           publicInputSum (unat (Size k)) (Generator k) w (zeta (challengeState E p k w))"
proof -
  note fields = challengeState_fields [OF assms(1)]
  have "\<forall>j < length (publicWitness (challengeState E p k w)).
          zeta (challengeState E p k w) \<noteq> Generator (vk (challengeState E p k w)) ^ j"
    using assms(3) by (simp add: fields)
  from publicInput_sum [OF this, of E] show ?thesis
    by (simp add: fields assms(2) publicInputSum_def lagrangeBasis_def mult.commute)
qed

theorem publicInput_closed_form_witness:
  "challengesDerived (demoEnv 2) (demoProof 31) demoKey [3, 5]
   \<and> SizeInv demoKey = 1 / of_nat (unat (Size demoKey))
   \<and> zeta (challengeState (demoEnv 2) (demoProof 31) demoKey [3, 5]) \<noteq> Generator demoKey ^ 0
   \<and> zeta (challengeState (demoEnv 2) (demoProof 31) demoKey [3, 5]) \<noteq> Generator demoKey ^ 1
   \<and> publicInput (demoEnv 2) (challengeState (demoEnv 2) (demoProof 31) demoKey [3, 5]) =
       publicInputSum 2 (- 1) [3, 5] 2"
proof -
  have inv: "SizeInv demoKey = 1 / of_nat (unat (Size demoKey))"
    by (simp add: demoKey_simps)
  have off: "\<forall>i < length [3, 5 :: rat].
        zeta (challengeState (demoEnv 2) (demoProof 31) demoKey [3, 5]) \<noteq> Generator demoKey ^ i"
    by (simp add: demo_state demoKey_simps less_Suc_eq)
  from publicInput_closed_form [OF demo_derived inv off]
  have "publicInput (demoEnv 2) (challengeState (demoEnv 2) (demoProof 31) demoKey [3, 5]) =
       publicInputSum 2 (- 1) [3, 5] 2"
    by (simp add: demo_state demoKey_simps)
  moreover
  have "zeta (challengeState (demoEnv 2) (demoProof 31) demoKey [3, 5]) \<noteq> Generator demoKey ^ 0"
    and "zeta (challengeState (demoEnv 2) (demoProof 31) demoKey [3, 5]) \<noteq> Generator demoKey ^ 1"
    by (simp_all add: demo_state demoKey_simps)
  ultimately show ?thesis
    using demo_derived inv by blast
qed


section \<open>The outcome of a call\<close>

text \<open>
  Claim C7.  When the challenges have been derived and every index expression is in range,
  the outcome is decided by the three checks in their order: the quotient check fails and
  the call returns \<^verbatim>\<open>errWrongClaimedQuotient\<close>; or it passes, the batched opening check
  fails and the call returns that check's error; or both pass and the call returns what the
  single opening check returns.  The statement holds with any two functions \<open>b\<close> and \<open>v\<close> in
  the place of the two KZG checks, while the quotient check and the seven digests are those
  of the call with the original checks: when the quotient check fails the outcome does not
  depend on \<open>b\<close> and \<open>v\<close>, and when the batched check fails it does not depend on \<open>v\<close>.  The
  call returns \<^verbatim>\<open>nil\<close> exactly when the three checks succeed.
\<close>

theorem Verify_outcome:
  fixes E :: "('f::field, 'g::ab_group_add, 't, 'e, 'srs, 'x) env"
  assumes "challengesDerived E p k w"
    and "7 \<le> length (ClaimedValues (BatchedProof p))"
    and "3 \<le> length (S k)" and "2 \<le> length (Shifter k)"
  shows "Verify (E\<lparr>BatchVerifySinglePoint := b, kzgVerify := v\<rparr>) p k w =
           (if \<not> quotientCheck E p k w then Return (Some errWrongClaimedQuotient)
            else case b [foldedH (exitState E p k w),
                         linearizedPolynomialDigest (exitState E p k w),
                         LRO p ! 0, LRO p ! 1, LRO p ! 2, S k ! 0, S k ! 1]
                        (BatchedProof p) (KZGSRS k) of
                   Some err \<Rightarrow> Return (Some (LibraryError err))
                 | None \<Rightarrow> Return (map_option LibraryError (v (Z p) (ZShiftedOpening p) (KZGSRS k))))
         \<and> (Verify E p k w = Return None \<longleftrightarrow>
              quotientCheck E p k w \<and> batchCheck E p k w = None \<and> singleCheck E p k = None)"
proof -
  let ?E = "E\<lparr>BatchVerifySinglePoint := b, kzgVerify := v\<rparr>"
  from assms(1) have "challengesDerived ?E p k w"
    by (simp add: checks_kzg_irrelevant)
  from Verify_cases [OF this assms(2,3,4)]
  have "Verify ?E p k w =
           (if \<not> quotientCheck E p k w then Return (Some errWrongClaimedQuotient)
            else case b [foldedH (exitState E p k w),
                         linearizedPolynomialDigest (exitState E p k w),
                         LRO p ! 0, LRO p ! 1, LRO p ! 2, S k ! 0, S k ! 1]
                        (BatchedProof p) (KZGSRS k) of
                   Some err \<Rightarrow> Return (Some (LibraryError err))
                 | None \<Rightarrow> Return (map_option LibraryError (v (Z p) (ZShiftedOpening p) (KZGSRS k))))"
    unfolding checks_kzg_irrelevant batchCheck_def singleCheck_def exitState_kzg_irrelevant
    by (simp cong: option.case_cong)
  moreover have "Verify E p k w = Return None \<longleftrightarrow>
              quotientCheck E p k w \<and> batchCheck E p k w = None \<and> singleCheck E p k = None"
    by (simp add: Verify_cases [OF assms] split: option.splits)
  ultimately show ?thesis by blast
qed


theorem Verify_outcome_witness:
  "challengesDerived (demoEnv 2) (demoProof 31) demoKey [3, 5]
   \<and> 7 \<le> length (ClaimedValues (BatchedProof (demoProof 31)))
   \<and> 3 \<le> length (S demoKey) \<and> 2 \<le> length (Shifter demoKey)
   \<and> Verify (demoEnv 2) (demoProof 31) demoKey [3, 5] = Return None
   \<and> Verify (demoEnv 2) (demoProof 30) demoKey [3, 5] = Return (Some errWrongClaimedQuotient)"
proof -
  have e: "(demoEnv 2)\<lparr>BatchVerifySinglePoint := BatchVerifySinglePoint (demoEnv 2),
                         kzgVerify := kzgVerify (demoEnv 2)\<rparr> = demoEnv 2"
    by simp
  from Verify_outcome [OF demo_derived [of 2 31 "[3, 5]"] demo_lengths(1) [of 31]
      demo_lengths(2,3), where b = "BatchVerifySinglePoint (demoEnv 2)"
      and v = "kzgVerify (demoEnv 2)", THEN conjunct2]
  have pass: "Verify (demoEnv 2) (demoProof 31) demoKey [3, 5] = Return None"
    by (simp add: demo_quotientCheck demo_checks)
  from Verify_outcome [OF demo_derived [of 2 30 "[3, 5]"] demo_lengths(1) [of 30]
      demo_lengths(2,3), where b = "BatchVerifySinglePoint (demoEnv 2)"
      and v = "kzgVerify (demoEnv 2)", THEN conjunct1]
  have fail: "Verify (demoEnv 2) (demoProof 30) demoKey [3, 5]
                = Return (Some errWrongClaimedQuotient)"
    unfolding e by (simp add: demo_quotientCheck)
  from demo_derived demo_lengths pass fail show ?thesis by blast
qed


section \<open>The folded commitment to the quotient\<close>

text \<open>
  Claim C5.  In a call that passes the quotient check, with \<open>n + 2\<close> below \<open>2^63\<close> for the
  size \<open>n\<close> (so that \<^verbatim>\<open>int64(vk.Size) + 2\<close> does not wrap; the sizes of a well-formed key
  are powers of two that divide the order of the multiplicative group of the field), the
  folded commitment is \<open>((H[2] . zeta^(n+2)) + H[1]) . zeta^(n+2) + H[0]\<close>, the scalar
  multiplications being by the big integer of \<open>zeta^(n+2)\<close>.
\<close>

theorem foldedH_horner:
  fixes E :: "('f::field, 'g::ab_group_add, 't, 'e, 'srs, 'x) env"
  assumes "challengesDerived E p k w"
    and "7 \<le> length (ClaimedValues (BatchedProof p))"
    and "quotientCheck E p k w"
    and "unat (Size k) + 2 < 2 ^ 63"
  shows "foldedH (exitState E p k w) =
           ScalarMultiplication E
             (ScalarMultiplication E (H p ! 2)
                (ToBigIntRegular E (zeta (challengeState E p k w) ^ (unat (Size k) + 2)))
              + H p ! 1)
             (ToBigIntRegular E (zeta (challengeState E p k w) ^ (unat (Size k) + 2)))
           + H p ! 0"
proof -
  have "Exp E (zeta (challengeState E p k w)) (int (unat (Size k) + 2))
          = zeta (challengeState E p k w) ^ (unat (Size k) + 2)"
    unfolding Exp_def by (simp only: of_nat_0_le_iff nat_int if_True)
  then have e: "Exp E (zeta (challengeState E p k w)) (sint (Size k + 2))
          = zeta (challengeState E p k w) ^ (unat (Size k) + 2)"
    by (simp only: sint_Size_plus_two [OF assms(4)])
  show ?thesis
    using exit_foldedH [OF assms(1,2,3)] by (simp only: e)
qed

theorem foldedH_horner_witness:
  "challengesDerived (demoEnv 2) (demoProof 31) demoKey [3, 5]
   \<and> 7 \<le> length (ClaimedValues (BatchedProof (demoProof 31)))
   \<and> quotientCheck (demoEnv 2) (demoProof 31) demoKey [3, 5]
   \<and> unat (Size demoKey) + 2 < 2 ^ 63
   \<and> foldedH (exitState (demoEnv 2) (demoProof 31) demoKey [3, 5]) = 1893"
proof -
  have q: "quotientCheck (demoEnv 2) (demoProof 31) demoKey [3, 5]"
    by (simp add: demo_quotientCheck)
  have n: "unat (Size demoKey) + 2 < 2 ^ 63"
    by (simp add: demoKey_simps)
  from foldedH_horner [OF demo_derived demo_lengths(1) q n]
  have "foldedH (exitState (demoEnv 2) (demoProof 31) demoKey [3, 5]) = 1893"
    by (simp add: demo_state demoEnv_simps demoProof_simps demoKey_simps)
  with demo_derived demo_lengths(1) q n show ?thesis by blast
qed


section \<open>The commitment to the linearized polynomial\<close>

text \<open>
  Claim C4.  In a call that passes the quotient check, the digest of the linearized
  polynomial is
  \<open>l Ql + r Qr + (l r) Qm + o Qo + Qk
     + [alpha zu (l + s1 + gamma) (r + s2 + gamma)] S[2]
     - [alpha (l + zeta + gamma) (r + Shifter[0] zeta + gamma) (o + Shifter[1] zeta + gamma)] Z
     + [alpha^2 L0(zeta)] Z\<close>,
  where \<open>l\<close>, \<open>r\<close>, \<open>o\<close>, \<open>s1\<close>, \<open>s2\<close> are the claimed values 2 to 6 (the specification's
  \<open>a\<close>, \<open>b\<close>, \<open>c\<close> are \<open>l\<close>, \<open>r\<close>, \<open>o\<close>), each scalar is applied by
  \<^verbatim>\<open>ScalarMultiplication\<close> to the big integer that \<^verbatim>\<open>ToBigIntRegular\<close> gives for the field
  element, and \<open>L0(zeta) = SizeInv (zeta^n - 1) / (zeta - 1)\<close>.
\<close>

theorem linearized_digest:
  fixes E :: "('f::field, 'g::ab_group_add, 't, 'e, 'srs, 'x) env"
  assumes "challengesDerived E p k w"
    and "7 \<le> length (ClaimedValues (BatchedProof p))"
    and "3 \<le> length (S k)" and "2 \<le> length (Shifter k)"
    and "quotientCheck E p k w"
  shows "linearizedPolynomialDigest (exitState E p k w) =
      ScalarMultiplication E (Ql k) (ToBigIntRegular E (ClaimedValues (BatchedProof p) ! 2))
      + ScalarMultiplication E (Qr k) (ToBigIntRegular E (ClaimedValues (BatchedProof p) ! 3))
      + ScalarMultiplication E (Qm k)
          (ToBigIntRegular E (ClaimedValues (BatchedProof p) ! 2 * ClaimedValues (BatchedProof p) ! 3))
      + ScalarMultiplication E (Qo k) (ToBigIntRegular E (ClaimedValues (BatchedProof p) ! 4))
      + Qk k
      + ScalarMultiplication E (S k ! 2)
          (ToBigIntRegular E
             (alpha (challengeState E p k w) * ClaimedValue (ZShiftedOpening p)
              * (ClaimedValues (BatchedProof p) ! 2 + ClaimedValues (BatchedProof p) ! 5
                 + gamma (challengeState E p k w))
              * (ClaimedValues (BatchedProof p) ! 3 + ClaimedValues (BatchedProof p) ! 6
                 + gamma (challengeState E p k w))))
      - ScalarMultiplication E (Z p)
          (ToBigIntRegular E
             (alpha (challengeState E p k w)
              * (ClaimedValues (BatchedProof p) ! 2 + zeta (challengeState E p k w)
                 + gamma (challengeState E p k w))
              * (ClaimedValues (BatchedProof p) ! 3
                 + Shifter k ! 0 * zeta (challengeState E p k w)
                 + gamma (challengeState E p k w))
              * (ClaimedValues (BatchedProof p) ! 4
                 + Shifter k ! 1 * zeta (challengeState E p k w)
                 + gamma (challengeState E p k w))))
      + ScalarMultiplication E (Z p)
          (ToBigIntRegular E
             ((alpha (challengeState E p k w))\<^sup>2
              * (SizeInv k * ((zeta (challengeState E p k w) ^ unat (Size k) - 1)
                              / (zeta (challengeState E p k w) - 1)))))"
  by (rule exit_digest(1) [OF assms])

theorem linearized_digest_witness:
  "challengesDerived (demoEnv 2) (demoProof 31) demoKey [3, 5]
   \<and> 7 \<le> length (ClaimedValues (BatchedProof (demoProof 31)))
   \<and> 3 \<le> length (S demoKey) \<and> 2 \<le> length (Shifter demoKey)
   \<and> quotientCheck (demoEnv 2) (demoProof 31) demoKey [3, 5]
   \<and> linearizedPolynomialDigest (exitState (demoEnv 2) (demoProof 31) demoKey [3, 5]) = - 2111"
proof -
  have q: "quotientCheck (demoEnv 2) (demoProof 31) demoKey [3, 5]"
    by (simp add: demo_quotientCheck)
  from linearized_digest [OF demo_derived demo_lengths q]
  have "linearizedPolynomialDigest (exitState (demoEnv 2) (demoProof 31) demoKey [3, 5]) = - 2111"
    by (simp add: demo_state demoEnv_simps demoProof_simps demoKey_simps)
  with demo_derived demo_lengths q show ?thesis by blast
qed

section \<open>The opening checks\<close>




section \<open>The challenges\<close>

text \<open>
  Claim C3.  When lines 36 to 86 fall through, the three challenges come from one
  transcript, created with the labels \<open>gamma\<close>, \<open>alpha\<close>, \<open>zeta\<close> in this order, by the
  chain: bind the encodings of \<^verbatim>\<open>LRO[0]\<close>, \<^verbatim>\<open>LRO[1]\<close>, \<^verbatim>\<open>LRO[2]\<close> to \<open>gamma\<close> and compute
  the challenge \<open>gamma\<close>; in the transcript that this leaves, bind the encoding of \<^verbatim>\<open>Z\<close> to
  \<open>alpha\<close> and compute \<open>alpha\<close>; in the transcript that this leaves, bind the encodings of
  \<^verbatim>\<open>H[0]\<close>, \<^verbatim>\<open>H[1]\<close>, \<^verbatim>\<open>H[2]\<close> to \<open>zeta\<close> and compute \<open>zeta\<close>.  Each challenge is
  \<^verbatim>\<open>SetBytes\<close> of the digest, the class of the big-endian integer in the field (its
  reduction modulo the order of the field, by \<open>SetBytes_reduces\<close>).
\<close>

theorem challenges_chained:
  fixes E :: "('f::field, 'g::ab_group_add, 't, 'e, 'srs, 'x) env"
  assumes "challengesDerived E p k w"
  shows "\<exists>t1 t2 t3 bg t4 t5 ba t6 t7 t8 t9 bz t10.
           Bind E (NewTranscript E [''gamma'', ''alpha'', ''zeta'']) ''gamma''
             (Marshal E (LRO p ! 0)) = Inr t1
         \<and> Bind E t1 ''gamma'' (Marshal E (LRO p ! 1)) = Inr t2
         \<and> Bind E t2 ''gamma'' (Marshal E (LRO p ! 2)) = Inr t3
         \<and> ComputeChallenge E t3 ''gamma'' = Inr (bg, t4)
         \<and> gamma (challengeState E p k w) = SetBytes bg
         \<and> Bind E t4 ''alpha'' (Marshal E (Z p)) = Inr t5
         \<and> ComputeChallenge E t5 ''alpha'' = Inr (ba, t6)
         \<and> alpha (challengeState E p k w) = SetBytes ba
         \<and> Bind E t6 ''zeta'' (Marshal E (H p ! 0)) = Inr t7
         \<and> Bind E t7 ''zeta'' (Marshal E (H p ! 1)) = Inr t8
         \<and> Bind E t8 ''zeta'' (Marshal E (H p ! 2)) = Inr t9
         \<and> ComputeChallenge E t9 ''zeta'' = Inr (bz, t10)
         \<and> zeta (challengeState E p k w) = SetBytes bz"
proof -
  from challenge_stage [OF challengeState_run [OF assms]]
  obtain t1 t2 t3 bg t4 t5 ba t6 t7 t8 t9 bz t10 where
    "Bind E (fs (entry E p k w)) ''gamma'' (Marshal E (LRO (v_proof (entry E p k w)) ! 0)) = Inr t1"
    "Bind E t1 ''gamma'' (Marshal E (LRO (v_proof (entry E p k w)) ! 1)) = Inr t2"
    "Bind E t2 ''gamma'' (Marshal E (LRO (v_proof (entry E p k w)) ! 2)) = Inr t3"
    "ComputeChallenge E t3 ''gamma'' = Inr (bg, t4)"
    "Bind E t4 ''alpha'' (Marshal E (Z (v_proof (entry E p k w)))) = Inr t5"
    "ComputeChallenge E t5 ''alpha'' = Inr (ba, t6)"
    "Bind E t6 ''zeta'' (Marshal E (H (v_proof (entry E p k w)) ! 0)) = Inr t7"
    "Bind E t7 ''zeta'' (Marshal E (H (v_proof (entry E p k w)) ! 1)) = Inr t8"
    "Bind E t8 ''zeta'' (Marshal E (H (v_proof (entry E p k w)) ! 2)) = Inr t9"
    "ComputeChallenge E t9 ''zeta'' = Inr (bz, t10)"
    "challengeState E p k w =
       (entry E p k w)\<lparr>fs := t10, gamma := SetBytes bg, alpha := SetBytes ba,
                         zeta := SetBytes bz\<rparr>"
    by blast
  then show ?thesis
    by (simp add: entry_def)
qed

theorem challenges_chained_witness:
  "challengesDerived (demoEnv 2) (demoProof 31) demoKey [3, 5]
   \<and> gamma (challengeState (demoEnv 2) (demoProof 31) demoKey [3, 5]) = SetBytes [2]
   \<and> alpha (challengeState (demoEnv 2) (demoProof 31) demoKey [3, 5]) = SetBytes [2]
   \<and> zeta (challengeState (demoEnv 2) (demoProof 31) demoKey [3, 5]) = SetBytes [2]"
  using challenges_chained [OF demo_derived, of 2 31 "[3, 5]"] demo_derived [of 2 31 "[3, 5]"]
  by (auto simp: demoEnv_def)


section \<open>Division by zero\<close>

text \<open>
  Claim C2, which the code does not satisfy: no statement of \<^verbatim>\<open>Verify\<close> tests a divisor,
  \<^verbatim>\<open>Div\<close> returns no error, and the only error that \<^verbatim>\<open>Verify\<close> itself creates is
  \<^verbatim>\<open>errWrongClaimedQuotient\<close>.  What holds instead: when zeta is a root of the vanishing
  polynomial, \<open>zeta^n = 1\<close> (every domain point \<open>g^i\<close> is one when \<open>g^n = 1\<close>), the division of
  line 148 yields zero, and the call returns \<^verbatim>\<open>errWrongClaimedQuotient\<close> exactly when the
  claimed quotient is not zero; with a claimed quotient zero it goes on to the opening
  checks.
\<close>

theorem division_by_zero_not_detected:
  fixes E :: "('f::field, 'g::ab_group_add, 't, 'e, 'srs, 'x) env"
  assumes "challengesDerived E p k w"
    and "7 \<le> length (ClaimedValues (BatchedProof p))"
    and "zeta (challengeState E p k w) ^ unat (Size k) = 1"
  shows "Verify E p k w = Return (Some errWrongClaimedQuotient) \<longleftrightarrow>
         ClaimedValues (BatchedProof p) ! 0 \<noteq> 0"
  using quotientCheck_at_root [OF assms] quotientCheck_iff(2) [OF assms(1,2)]
  by blast

theorem division_by_zero_not_detected_witness:
  "challengesDerived (demoEnv 1) (demoProof 5) demoKey [3, 5]
   \<and> 7 \<le> length (ClaimedValues (BatchedProof (demoProof 5)))
   \<and> zeta (challengeState (demoEnv 1) (demoProof 5) demoKey [3, 5]) ^ unat (Size demoKey) = 1
   \<and> Verify (demoEnv 1) (demoProof 5) demoKey [3, 5] = Return (Some errWrongClaimedQuotient)"
proof -
  have root: "zeta (challengeState (demoEnv 1) (demoProof 5) demoKey [3, 5]) ^ unat (Size demoKey) = 1"
    by (simp add: demo_state demoKey_simps)
  from division_by_zero_not_detected [OF demo_derived demo_lengths(1) root]
  have "Verify (demoEnv 1) (demoProof 5) demoKey [3, 5] = Return (Some errWrongClaimedQuotient)"
    by (simp add: demoProof_simps)
  with demo_derived demo_lengths(1) root show ?thesis by blast
qed

text \<open>
  The counterexample to claim C2: zeta is the domain point \<open>g^0 = 1\<close>, the divisors
  \<open>zeta - 1\<close> of line 102 and \<open>zeta^n - 1\<close> of line 148 are zero, and the call returns
  \<^verbatim>\<open>nil\<close>.
\<close>

theorem division_by_zero_counterexample:
  "zeta (challengeState (demoEnv 1) (demoProof 0) demoKey [3, 5]) = Generator demoKey ^ 0
   \<and> zeta (challengeState (demoEnv 1) (demoProof 0) demoKey [3, 5]) ^ unat (Size demoKey) - 1 = 0
   \<and> Verify (demoEnv 1) (demoProof 0) demoKey [3, 5] = Return None"
proof -
  have root: "zeta (challengeState (demoEnv 1) (demoProof 0) demoKey [3, 5]) ^ unat (Size demoKey) = 1"
    by (simp add: demo_state demoKey_simps)
  have q: "quotientCheck (demoEnv 1) (demoProof 0) demoKey [3, 5]"
    by (simp add: quotientCheck_at_root [OF demo_derived demo_lengths(1) root] demoProof_simps)
  have "Verify (demoEnv 1) (demoProof 0) demoKey [3, 5] = Return None"
    by (simp add: Verify_cases [OF demo_derived demo_lengths] q demo_checks)
  then show ?thesis
    using root by (simp add: demo_state)
qed


section \<open>Index expressions\<close>

text \<open>
  Claim C10.  The claimed values are read at the indices 0 to 6, and \<^verbatim>\<open>LRO\<close> and \<^verbatim>\<open>H\<close> at
  the indices 0 to 2, with no test of a length.  When no transcript operation returns an
  error, the call panics exactly when the proof has fewer than three entries in \<^verbatim>\<open>LRO\<close> or
  in \<^verbatim>\<open>H\<close> or fewer than seven claimed values, or when, the quotient check being passed,
  the key has fewer than three entries in \<^verbatim>\<open>S\<close> or fewer than two in \<^verbatim>\<open>Shifter\<close>.  So with
  the lengths of the precondition (and a key of the declared shape) no index expression is
  out of range, and a proof that violates the precondition makes the call panic: it
  returns no error value.
\<close>

theorem Verify_panics:
  fixes E :: "('f::field, 'g::ab_group_add, 't, 'e, 'srs, 'x) env"
  assumes "\<forall>tr l b e. Bind E tr l b \<noteq> Inl e"
    and "\<forall>tr l e. ComputeChallenge E tr l \<noteq> Inl e"
  shows "Verify E p k w = Panic \<longleftrightarrow>
           \<not> (3 \<le> length (LRO p) \<and> 3 \<le> length (H p)
              \<and> 7 \<le> length (ClaimedValues (BatchedProof p)))
           \<or> (quotientCheck E p k w \<and> \<not> (3 \<le> length (S k) \<and> 2 \<le> length (Shifter k)))"
proof (cases "3 \<le> length (LRO p) \<and> 3 \<le> length (H p)")
  case False
  then have "fst (run (challengeSteps E) (entry E p k w)) = Some Panic"
    by (simp add: challenges_total [OF assms] entry_def)
  then have "Verify E p k w = Panic"
    by (cases "run (challengeSteps E) (entry E p k w)")
       (simp add: Verify_def exec_def body_def run_append [of "challengeSteps E"])
  with False show ?thesis by blast
next
  case lens: True
  then have derived: "challengesDerived E p k w"
    by (simp add: challengesDerived_def challenges_total [OF assms] entry_def)
  note fields = challengeState_fields [OF derived]
  show ?thesis
  proof (cases "7 \<le> length (ClaimedValues (BatchedProof p))")
    case False
    with fields have "\<not> 7 \<le> length (ClaimedValues (BatchedProof (v_proof (challengeState E p k w))))"
      by simp
    from quotient_panic [OF this, of E "foldSteps E @ digestSteps E @ [batchStep E]"]
    have "Verify E p k w = Panic"
      by (simp add: Verify_def exec_after_challenges [OF derived] fst_case_run)
    with False show ?thesis by blast
  next
    case cv: True
    from reach_check [OF derived cv] obtain s' where
      ex: "exec E (entry E p k w) =
           (if claimedQuotient s' \<noteq> linearizedPolynomialZeta s'
            then (Return (Some errWrongClaimedQuotient), s')
            else (case run (foldSteps E @ digestSteps E @ [batchStep E]) s' of
                    (Some res, s'') \<Rightarrow> (res, s'')
                  | (None, s'') \<Rightarrow> (finalStep E s'', s'')))"
      and s': "v_proof s' = p" "vk s' = k"
      by blast
    show ?thesis
    proof (cases "quotientCheck E p k w")
      case False
      with quotientCheck_iff(2) [OF derived cv] lens cv show ?thesis
        by auto
    next
      case q: True
      with quotientCheck_iff(2) [OF derived cv]
      have "Verify E p k w \<noteq> Return (Some errWrongClaimedQuotient)"
        by simp
      then have pass: "claimedQuotient s' = linearizedPolynomialZeta s'"
        by (cases "claimedQuotient s' = linearizedPolynomialZeta s'") (simp_all add: Verify_def ex)
      show ?thesis
      proof (cases "3 \<le> length (S k) \<and> 2 \<le> length (Shifter k)")
        case True
        with Verify_cases [OF derived cv] q lens cv show ?thesis
          by (auto split: option.splits)
      next
        case False
        with fields s' have "3 \<le> length (H (v_proof s'))"
          and "\<not> (3 \<le> length (S (vk s')) \<and> 2 \<le> length (Shifter (vk s')))"
          by simp_all
        from tail_panic [OF this, of E] have "Verify E p k w = Panic"
          using pass by (simp add: Verify_def ex fst_case_run)
        with False q show ?thesis by blast
      qed
    qed
  qed
qed


theorem Verify_panics_witness:
  "(\<forall>tr l b e. Bind (demoEnv 2) tr l b \<noteq> Inl e)
   \<and> (\<forall>tr l e. ComputeChallenge (demoEnv 2) tr l \<noteq> Inl e)
   \<and> Verify (demoEnv 2) (demoProof 31) demoKey [3, 5] \<noteq> Panic
   \<and> Verify (demoEnv 2)
        ((demoProof 31)\<lparr>BatchedProof := \<lparr>ClaimedValues = [31, 1, 1], BatchRest = ()\<rparr>\<rparr>)
        demoKey [3, 5] = Panic"
proof -
  have b: "\<forall>tr l b e. Bind (demoEnv 2) tr l b \<noteq> Inl e"
    and c: "\<forall>tr l e. ComputeChallenge (demoEnv 2) tr l \<noteq> Inl e"
    by (simp_all add: demoEnv_def)
  from Verify_panics [OF b c, of "demoProof 31" demoKey "[3, 5]"]
  have ok: "Verify (demoEnv 2) (demoProof 31) demoKey [3, 5] \<noteq> Panic"
    by (simp add: demoProof_simps demoKey_simps)
  from Verify_panics [OF b c,
      of "(demoProof 31)\<lparr>BatchedProof := \<lparr>ClaimedValues = [31, 1, 1], BatchRest = ()\<rparr>\<rparr>"
        demoKey "[3, 5]"]
  have short: "Verify (demoEnv 2)
        ((demoProof 31)\<lparr>BatchedProof := \<lparr>ClaimedValues = [31, 1, 1], BatchRest = ()\<rparr>\<rparr>)
        demoKey [3, 5] = Panic"
    by simp
  from b c ok short show ?thesis by blast
qed


end
